theory Spec2Isabelle
  imports Main
begin

section \<open>Python values, exceptions and the operations the code applies to them\<close>

text \<open>
  The services and routes work on untyped Python values: the dictionaries and lists that
  \<^verbatim>\<open>json.loads\<close> returns, the response object of the text-generation service and
  the documents of the \<^verbatim>\<open>users\<close> collection. One datatype covers them. A
  dictionary is an association list in insertion order (the order \<^verbatim>\<open>.items()\<close>
  iterates in); its keys are strings, as JSON and the stored documents have them. A float
  keeps the text of its literal. Text is a \<open>string\<close> holding the UTF-8 bytes of the
  Python string. The calls of \<^verbatim>\<open>print\<close> are left out.
\<close>

datatype pyval =
    PNone
  | PBool bool
  | PInt int
  | PFloat string
  | PStr string
  | PList "pyval list"
  | PDict "(string \<times> pyval) list"
  | PObjectId string

text \<open>
  Exceptions are values: a class and the text \<^verbatim>\<open>str(e)\<close> gives. The classes are
  the ones the source raises or catches by name, and the ones the interpreter raises on the
  operations the source performs. \<open>JSONDecodeError\<close> is a subclass of \<open>ValueError\<close>,
  and every class here is a subclass of \<open>Exception\<close>.
\<close>

datatype exn_class =
    OpenAIError
  | ValueError
  | JSONDecodeError
  | KeyError
  | IndexError
  | TypeError
  | AttributeError
  | InvalidId
  | OtherException

datatype exn = Exn exn_class string

fun exn_class_of :: "exn \<Rightarrow> exn_class" where
  "exn_class_of (Exn c m) = c"

fun str_exn :: "exn \<Rightarrow> string" where
  "str_exn (Exn c m) = m"

definition dq :: char where
  "dq = CHR 0x22"

definition bs :: char where
  "bs = CHR 0x5C"

definition sq :: char where
  "sq = CHR 0x27"

fun type_name :: "pyval \<Rightarrow> string" where
  "type_name PNone = ''NoneType''"
| "type_name (PBool b) = ''bool''"
| "type_name (PInt i) = ''int''"
| "type_name (PFloat f) = ''float''"
| "type_name (PStr s) = ''str''"
| "type_name (PList xs) = ''list''"
| "type_name (PDict d) = ''dict''"
| "type_name (PObjectId oid) = ''ObjectId''"

text \<open>
  Truthiness, as \<^verbatim>\<open>not x\<close>, \<^verbatim>\<open>x or y\<close> and \<^verbatim>\<open>if x\<close> test it. A float
  literal is zero when its mantissa has no digit other than 0 (underflow of a tiny literal
  to 0.0 is outside the model).
\<close>

definition float_literal_nonzero :: "string \<Rightarrow> bool" where
  "float_literal_nonzero f =
     (filter (\<lambda>c. c \<noteq> CHR ''0'' \<and> c \<noteq> CHR ''.'' \<and> c \<noteq> CHR ''-'')
        (takeWhile (\<lambda>c. c \<noteq> CHR ''e'' \<and> c \<noteq> CHR ''E'') f) \<noteq> [])"

fun truthy :: "pyval \<Rightarrow> bool" where
  "truthy PNone = False"
| "truthy (PBool b) = b"
| "truthy (PInt i) = (i \<noteq> 0)"
| "truthy (PFloat f) = float_literal_nonzero f"
| "truthy (PStr s) = (s \<noteq> [])"
| "truthy (PList xs) = (xs \<noteq> [])"
| "truthy (PDict d) = (d \<noteq> [])"
| "truthy (PObjectId oid) = True"

text \<open>\<^verbatim>\<open>a or b\<close>\<close>

definition py_or :: "pyval \<Rightarrow> pyval \<Rightarrow> pyval" where
  "py_or a b = (if truthy a then a else b)"

subsection \<open>Dictionaries\<close>

text \<open>\<^verbatim>\<open>d.get(k, default)\<close>\<close>

definition dict_get :: "(string \<times> pyval) list \<Rightarrow> string \<Rightarrow> pyval \<Rightarrow> pyval" where
  "dict_get d k dflt = (case map_of d k of None \<Rightarrow> dflt | Some v \<Rightarrow> v)"

text \<open>\<^verbatim>\<open>d[k] = v\<close>: an existing key keeps its place, a new key goes last.\<close>

fun dict_setitem :: "(string \<times> pyval) list \<Rightarrow> string \<Rightarrow> pyval \<Rightarrow> (string \<times> pyval) list" where
  "dict_setitem [] k v = [(k, v)]"
| "dict_setitem ((k', v') # d) k v =
     (if k' = k then (k, v) # d else (k', v') # dict_setitem d k v)"

text \<open>\<^verbatim>\<open>s1 in s2\<close> on strings is the substring test.\<close>

fun starts_with :: "string \<Rightarrow> string \<Rightarrow> bool" where
  "starts_with [] s = True"
| "starts_with (p # ps) [] = False"
| "starts_with (p # ps) (c # cs) = (p = c \<and> starts_with ps cs)"

fun is_substring :: "string \<Rightarrow> string \<Rightarrow> bool" where
  "is_substring p [] = (p = [])"
| "is_substring p (c # cs) = (starts_with p (c # cs) \<or> is_substring p cs)"

text \<open>\<^verbatim>\<open>k in obj\<close> for a string \<open>k\<close>.\<close>

fun py_contains :: "string \<Rightarrow> pyval \<Rightarrow> exn + bool" where
  "py_contains k (PDict d) = Inr (map_of d k \<noteq> None)"
| "py_contains k (PList xs) = Inr (PStr k \<in> set xs)"
| "py_contains k (PStr s) = Inr (is_substring k s)"
| "py_contains k v =
     Inl (Exn TypeError (''argument of type '' @ [sq] @ type_name v @ [sq] @ '' is not iterable''))"

text \<open>\<^verbatim>\<open>obj[k]\<close> for a string \<open>k\<close>.\<close>

fun getitem_str :: "pyval \<Rightarrow> string \<Rightarrow> exn + pyval" where
  "getitem_str (PDict d) k =
     (case map_of d k of None \<Rightarrow> Inl (Exn KeyError ([sq] @ k @ [sq])) | Some v \<Rightarrow> Inr v)"
| "getitem_str (PList xs) k =
     Inl (Exn TypeError ''list indices must be integers or slices, not str'')"
| "getitem_str (PStr s) k = Inl (Exn TypeError ''string indices must be integers'')"
| "getitem_str v k =
     Inl (Exn TypeError ([sq] @ type_name v @ [sq] @ '' object is not subscriptable''))"

text \<open>\<^verbatim>\<open>obj[0]\<close>\<close>

fun getitem_0 :: "pyval \<Rightarrow> exn + pyval" where
  "getitem_0 (PList xs) =
     (case xs of [] \<Rightarrow> Inl (Exn IndexError ''list index out of range'') | x # _ \<Rightarrow> Inr x)"
| "getitem_0 (PStr s) =
     (case s of [] \<Rightarrow> Inl (Exn IndexError ''string index out of range'') | c # _ \<Rightarrow> Inr (PStr [c]))"
| "getitem_0 (PDict d) = Inl (Exn KeyError ''0'')"
| "getitem_0 v =
     Inl (Exn TypeError ([sq] @ type_name v @ [sq] @ '' object is not subscriptable''))"

text \<open>
  \<^verbatim>\<open>obj.strip()\<close>: only a string has the method. It removes the whitespace at
  both ends, and whitespace is every character for which \<^verbatim>\<open>str.isspace\<close> holds:
  the code points 9 to 13, 28 to 32, U+0085, U+00A0, U+1680, U+2000 to U+200A, U+2028,
  U+2029, U+202F, U+205F and U+3000. In the UTF-8 bytes of the text these are single
  bytes, the two-byte sequences C2 85 and C2 A0, and three-byte sequences.
\<close>

definition is_space1 :: "char \<Rightarrow> bool" where
  "is_space1 c = (let n = (of_char c :: nat) in (9 \<le> n \<and> n \<le> 13) \<or> (28 \<le> n \<and> n \<le> 32))"

definition is_space2 :: "char \<Rightarrow> char \<Rightarrow> bool" where
  "is_space2 a b = (a = CHR 0xC2 \<and> (b = CHR 0x85 \<or> b = CHR 0xA0))"

definition is_space3 :: "char \<Rightarrow> char \<Rightarrow> char \<Rightarrow> bool" where
  "is_space3 a b c =
     (let n = (of_char c :: nat) in
      (a = CHR 0xE1 \<and> b = CHR 0x9A \<and> c = CHR 0x80)
      \<or> (a = CHR 0xE2 \<and> b = CHR 0x80
           \<and> ((0x80 \<le> n \<and> n \<le> 0x8A) \<or> c = CHR 0xA8 \<or> c = CHR 0xA9 \<or> c = CHR 0xAF))
      \<or> (a = CHR 0xE2 \<and> b = CHR 0x81 \<and> c = CHR 0x9F)
      \<or> (a = CHR 0xE3 \<and> b = CHR 0x80 \<and> c = CHR 0x80))"

text \<open>The whitespace at the start of a text, removed.\<close>

fun lstrip :: "string \<Rightarrow> string" where
  "lstrip [] = []"
| "lstrip (a # s) =
     (if is_space1 a then lstrip s
      else case s of
             [] \<Rightarrow> a # s
           | b # s' \<Rightarrow>
               if is_space2 a b then lstrip s'
               else case s' of
                      [] \<Rightarrow> a # s
                    | c # s'' \<Rightarrow> if is_space3 a b c then lstrip s'' else a # s)"

text \<open>The same on the reversed text, where each sequence stands last byte first.\<close>

fun lstrip_rev :: "string \<Rightarrow> string" where
  "lstrip_rev [] = []"
| "lstrip_rev (c # s) =
     (if is_space1 c then lstrip_rev s
      else case s of
             [] \<Rightarrow> c # s
           | b # s' \<Rightarrow>
               if is_space2 b c then lstrip_rev s'
               else case s' of
                      [] \<Rightarrow> c # s
                    | a # s'' \<Rightarrow> if is_space3 a b c then lstrip_rev s'' else c # s)"

definition str_strip :: "string \<Rightarrow> string" where
  "str_strip s = rev (lstrip_rev (rev (lstrip s)))"

fun py_strip :: "pyval \<Rightarrow> exn + string" where
  "py_strip (PStr s) = Inr (str_strip s)"
| "py_strip v =
     Inl (Exn AttributeError
            ([sq] @ type_name v @ [sq] @ '' object has no attribute '' @ [sq] @ ''strip'' @ [sq]))"

text \<open>\<^verbatim>\<open>obj.items()\<close>: only a dictionary has the method.\<close>

fun py_items :: "pyval \<Rightarrow> exn + (string \<times> pyval) list" where
  "py_items (PDict d) = Inr d"
| "py_items v =
     Inl (Exn AttributeError
            ([sq] @ type_name v @ [sq] @ '' object has no attribute '' @ [sq] @ ''items'' @ [sq]))"

text \<open>\<^verbatim>\<open>convert_objectid\<close> (services/finance_ai.py, routes/user_data.py)\<close>

fun convert_objectid :: "pyval \<Rightarrow> pyval" where
  "convert_objectid (PObjectId oid) = PStr oid"
| "convert_objectid (PDict d) = PDict (map (\<lambda>(k, v). (k, convert_objectid v)) d)"
| "convert_objectid (PList xs) = PList (map convert_objectid xs)"
| "convert_objectid v = v"

section \<open>The structured extractor\<close>

subsection \<open>The regular expression\<close>

text \<open>
  \<^verbatim>\<open>re.search(r"\{.*\}", response_text, re.DOTALL)\<close>. With DOTALL the dot matches
  every character. \<open>dotstar_rbrace\<close> is the greedy \<^verbatim>\<open>.*\}\<close> anchored at the start
  of its input: the longest prefix that ends in a closing brace. \<open>match_at\<close> is the whole
  pattern anchored at the start, and \<open>re_search\<close> tries the start positions from left to
  right and returns \<^verbatim>\<open>match.group(0)\<close> of the first that matches.
\<close>

fun dotstar_rbrace :: "string \<Rightarrow> string option" where
  "dotstar_rbrace [] = None"
| "dotstar_rbrace (c # cs) =
     (case dotstar_rbrace cs of
        Some m \<Rightarrow> Some (c # m)
      | None \<Rightarrow> if c = CHR ''}'' then Some [c] else None)"

fun match_at :: "string \<Rightarrow> string option" where
  "match_at [] = None"
| "match_at (c # cs) =
     (if c = CHR ''{'' then map_option ((#) c) (dotstar_rbrace cs) else None)"

fun re_search :: "string \<Rightarrow> string option" where
  "re_search [] = None"
| "re_search (c # cs) =
     (case match_at (c # cs) of Some m \<Rightarrow> Some m | None \<Rightarrow> re_search cs)"

subsection \<open>The JSON decoder\<close>

text \<open>
  \<^verbatim>\<open>json.loads\<close> is the standard library's decoder; the model follows its scanner
  (\<^verbatim>\<open>scan_once\<close>, \<^verbatim>\<open>JSONObject\<close>, \<^verbatim>\<open>JSONArray\<close>, \<^verbatim>\<open>scanstring\<close> in
  strict mode, and the number pattern). Every failure of the decoder is a
  \<open>JSONDecodeError\<close>. The limits of the interpreter (on the depth of nesting and on
  the number of digits of an integer) are outside the model.
\<close>

definition decode_error :: "string \<Rightarrow> exn + 'a" where
  "decode_error m = Inl (Exn JSONDecodeError m)"

definition is_json_ws :: "char \<Rightarrow> bool" where
  "is_json_ws c = (c = CHR '' '' \<or> c = CHR 0x09 \<or> c = CHR 0x0A \<or> c = CHR 0x0D)"

definition skip_ws :: "string \<Rightarrow> string" where
  "skip_ws s = dropWhile is_json_ws s"

definition is_digit :: "char \<Rightarrow> bool" where
  "is_digit c = (let n = (of_char c :: nat) in 48 \<le> n \<and> n \<le> 57)"

definition digit_val :: "char \<Rightarrow> nat" where
  "digit_val c = of_char c - 48"

definition hex_val :: "char \<Rightarrow> nat option" where
  "hex_val c =
     (let n = (of_char c :: nat) in
      if 48 \<le> n \<and> n \<le> 57 then Some (n - 48)
      else if 65 \<le> n \<and> n \<le> 70 then Some (n - 55)
      else if 97 \<le> n \<and> n \<le> 102 then Some (n - 87)
      else None)"

definition hex4 :: "char \<Rightarrow> char \<Rightarrow> char \<Rightarrow> char \<Rightarrow> nat option" where
  "hex4 a b c d =
     (case (hex_val a, hex_val b, hex_val c, hex_val d) of
        (Some w, Some x, Some y, Some z) \<Rightarrow> Some (((w * 16 + x) * 16 + y) * 16 + z)
      | _ \<Rightarrow> None)"

text \<open>The UTF-8 bytes of a code point (\<^verbatim>\<open>chr(uni)\<close> in the byte representation of text).\<close>

definition utf8_encode :: "nat \<Rightarrow> string" where
  "utf8_encode n =
     (if n < 0x80 then [char_of n]
      else if n < 0x800 then [char_of (0xC0 + n div 64), char_of (0x80 + n mod 64)]
      else if n < 0x10000 then
        [char_of (0xE0 + n div 4096), char_of (0x80 + (n div 64) mod 64), char_of (0x80 + n mod 64)]
      else
        [char_of (0xF0 + n div 262144), char_of (0x80 + (n div 4096) mod 64),
         char_of (0x80 + (n div 64) mod 64), char_of (0x80 + n mod 64)])"

text \<open>The escape table \<^verbatim>\<open>BACKSLASH\<close> of the decoder.\<close>

definition simple_escape :: "char \<Rightarrow> char option" where
  "simple_escape e =
     (if e = dq then Some dq
      else if e = bs then Some bs
      else if e = CHR ''/'' then Some (CHR ''/'')
      else if e = CHR ''b'' then Some (CHR 0x08)
      else if e = CHR ''f'' then Some (CHR 0x0C)
      else if e = CHR ''n'' then Some (CHR 0x0A)
      else if e = CHR ''r'' then Some (CHR 0x0D)
      else if e = CHR ''t'' then Some (CHR 0x09)
      else None)"

text \<open>
  One escape sequence, the input standing after the backslash: the decoded text and the
  number of characters the escape takes. A high surrogate followed by an escaped low
  surrogate is one code point.
\<close>

definition scan_escape :: "string \<Rightarrow> exn + (string \<times> nat)" where
  "scan_escape s =
     (case s of
        [] \<Rightarrow> decode_error ''Unterminated string starting at''
      | e # r \<Rightarrow>
          if e \<noteq> CHR ''u'' then
            (case simple_escape e of
               None \<Rightarrow> decode_error ''Invalid escape''
             | Some ch \<Rightarrow> Inr ([ch], 1))
          else
            (case r of
               h1 # h2 # h3 # h4 # r1 \<Rightarrow>
                 (case hex4 h1 h2 h3 h4 of
                    None \<Rightarrow> decode_error ''Invalid uXXXX escape''
                  | Some uni \<Rightarrow>
                      if 0xD800 \<le> uni \<and> uni \<le> 0xDBFF then
                        (case r1 of
                           b # u # g1 # g2 # g3 # g4 # r2 \<Rightarrow>
                             if b = bs \<and> u = CHR ''u'' then
                               (case hex4 g1 g2 g3 g4 of
                                  None \<Rightarrow> decode_error ''Invalid uXXXX escape''
                                | Some uni2 \<Rightarrow>
                                    if 0xDC00 \<le> uni2 \<and> uni2 \<le> 0xDFFF then
                                      Inr (utf8_encode
                                             (0x10000 + (uni - 0xD800) * 1024 + (uni2 - 0xDC00)),
                                           11)
                                    else Inr (utf8_encode uni, 5))
                             else Inr (utf8_encode uni, 5)
                         | _ \<Rightarrow> Inr (utf8_encode uni, 5))
                      else Inr (utf8_encode uni, 5))
             | _ \<Rightarrow> decode_error ''Invalid uXXXX escape''))"

text \<open>\<^verbatim>\<open>scanstring\<close>, the input standing after the opening quote.\<close>

fun scanstring :: "string \<Rightarrow> exn + (string \<times> string)" where
  "scanstring [] = decode_error ''Unterminated string starting at''"
| "scanstring (c # cs) =
     (if c = dq then Inr ([], cs)
      else if c = bs then
        (case scan_escape cs of
           Inl e \<Rightarrow> Inl e
         | Inr (d, k) \<Rightarrow>
             (case scanstring (drop k cs) of
                Inl e \<Rightarrow> Inl e
              | Inr (s, rest) \<Rightarrow> Inr (d @ s, rest)))
      else if (of_char c :: nat) < 0x20 then decode_error ''Invalid control character at''
      else (case scanstring cs of Inl e \<Rightarrow> Inl e | Inr (s, rest) \<Rightarrow> Inr (c # s, rest)))"

text \<open>
  The number pattern
  \<^verbatim>\<open>(-?(?:0|[1-9][0-9]*))(\.[0-9]+)?([eE][-+]?[0-9]+)?\<close>: an integer when neither
  the fraction nor the exponent is there, a float otherwise.
\<close>

definition int_of_digits :: "string \<Rightarrow> int" where
  "int_of_digits ds = foldl (\<lambda>a c. 10 * a + int (digit_val c)) 0 ds"

definition scan_fraction :: "string \<Rightarrow> string \<times> string" where
  "scan_fraction s =
     (case s of
        p # q # r \<Rightarrow>
          if p = CHR ''.'' \<and> is_digit q then (p # q # takeWhile is_digit r, dropWhile is_digit r)
          else ([], s)
      | _ \<Rightarrow> ([], s))"

definition scan_exponent :: "string \<Rightarrow> string \<times> string" where
  "scan_exponent s =
     (case s of
        [] \<Rightarrow> ([], s)
      | e # r \<Rightarrow>
          if e = CHR ''e'' \<or> e = CHR ''E'' then
            (let (sg, r1) = (case r of
                               [] \<Rightarrow> ([], r)
                             | c # r' \<Rightarrow> if c = CHR ''-'' \<or> c = CHR ''+'' then ([c], r') else ([], r))
             in if takeWhile is_digit r1 = [] then ([], s)
                else (e # sg @ takeWhile is_digit r1, dropWhile is_digit r1))
          else ([], s))"

definition match_number :: "string \<Rightarrow> (pyval \<times> string) option" where
  "match_number s =
     (let (neg, s1) = (case s of
                         [] \<Rightarrow> (False, s)
                       | c # r \<Rightarrow> if c = CHR ''-'' then (True, r) else (False, s))
      in case s1 of
           [] \<Rightarrow> None
         | d # r \<Rightarrow>
             if \<not> is_digit d then None
             else
               (let (ip, s2) = (if d = CHR ''0'' then ([d], r)
                                else (d # takeWhile is_digit r, dropWhile is_digit r));
                    (fp, s3) = scan_fraction s2;
                    (ep, s4) = scan_exponent s3
                in if fp = [] \<and> ep = [] then
                     Some (PInt (if neg then - int_of_digits ip else int_of_digits ip), s4)
                   else Some (PFloat ((if neg then ''-'' else []) @ ip @ fp @ ep), s4)))"

text \<open>The constants the scanner knows by name.\<close>

definition scan_constant :: "string \<Rightarrow> (pyval \<times> string) option" where
  "scan_constant s =
     (if starts_with ''null'' s then Some (PNone, drop 4 s)
      else if starts_with ''true'' s then Some (PBool True, drop 4 s)
      else if starts_with ''false'' s then Some (PBool False, drop 5 s)
      else if starts_with ''NaN'' s then Some (PFloat ''NaN'', drop 3 s)
      else if starts_with ''Infinity'' s then Some (PFloat ''Infinity'', drop 8 s)
      else if starts_with ''-Infinity'' s then Some (PFloat ''-Infinity'', drop 9 s)
      else None)"

text \<open>
  The scanner. Its first argument bounds the number of calls; \<open>json_loads\<close> passes
  twice the length of the text and one more, which is never used up, since every second
  call consumes a character (\<open>scan_once_fuel\<close> below). \<open>JSONObject\<close> stands
  after the opening quote of a key, with the pairs read so far; \<open>JSONArray\<close> stands at
  an element, with the elements read so far.
\<close>

fun scan_once :: "nat \<Rightarrow> string \<Rightarrow> exn + (pyval \<times> string)"
  and JSONObject :: "nat \<Rightarrow> (string \<times> pyval) list \<Rightarrow> string \<Rightarrow> exn + (pyval \<times> string)"
  and JSONArray :: "nat \<Rightarrow> pyval list \<Rightarrow> string \<Rightarrow> exn + (pyval \<times> string)"
where
  "scan_once 0 s = decode_error ''out of fuel''"
| "scan_once (Suc n) s =
     (case s of
        [] \<Rightarrow> decode_error ''Expecting value''
      | c # cs \<Rightarrow>
          if c = dq then
            (case scanstring cs of Inl e \<Rightarrow> Inl e | Inr (str, rest) \<Rightarrow> Inr (PStr str, rest))
          else if c = CHR ''{'' then
            (case skip_ws cs of
               [] \<Rightarrow> decode_error ''Expecting property name enclosed in double quotes''
             | d # r \<Rightarrow>
                 if d = dq then JSONObject n [] r
                 else if d = CHR ''}'' then Inr (PDict [], r)
                 else decode_error ''Expecting property name enclosed in double quotes'')
          else if c = CHR ''['' then
            (case skip_ws cs of
               [] \<Rightarrow> decode_error ''Expecting value''
             | d # r \<Rightarrow> if d = CHR '']'' then Inr (PList [], r) else JSONArray n [] (d # r))
          else
            (case scan_constant s of
               Some (v, rest) \<Rightarrow> Inr (v, rest)
             | None \<Rightarrow>
                 (case match_number s of
                    None \<Rightarrow> decode_error ''Expecting value''
                  | Some (v, rest) \<Rightarrow> Inr (v, rest))))"
| "JSONObject 0 acc s = decode_error ''out of fuel''"
| "JSONObject (Suc n) acc s =
     (case scanstring s of
        Inl e \<Rightarrow> Inl e
      | Inr (key, s1) \<Rightarrow>
          (case skip_ws s1 of
             [] \<Rightarrow> decode_error ''Expecting : delimiter''
           | c # s2 \<Rightarrow>
               if c \<noteq> CHR '':'' then decode_error ''Expecting : delimiter''
               else
                 (case scan_once n (skip_ws s2) of
                    Inl e \<Rightarrow> Inl e
                  | Inr (v, s3) \<Rightarrow>
                      (case skip_ws s3 of
                         [] \<Rightarrow> decode_error ''Expecting , delimiter''
                       | d # s4 \<Rightarrow>
                           if d = CHR ''}'' then Inr (PDict (dict_setitem acc key v), s4)
                           else if d \<noteq> CHR '','' then decode_error ''Expecting , delimiter''
                           else
                             (case skip_ws s4 of
                                [] \<Rightarrow>
                                  decode_error ''Expecting property name enclosed in double quotes''
                              | q # s5 \<Rightarrow>
                                  if q = dq then JSONObject n (dict_setitem acc key v) s5
                                  else
                                    decode_error
                                      ''Expecting property name enclosed in double quotes'')))))"
| "JSONArray 0 acc s = decode_error ''out of fuel''"
| "JSONArray (Suc n) acc s =
     (case scan_once n s of
        Inl e \<Rightarrow> Inl e
      | Inr (v, s1) \<Rightarrow>
          (case skip_ws s1 of
             [] \<Rightarrow> decode_error ''Expecting , delimiter''
           | d # s2 \<Rightarrow>
               if d = CHR '']'' then Inr (PList (acc @ [v]), s2)
               else if d \<noteq> CHR '','' then decode_error ''Expecting , delimiter''
               else JSONArray n (acc @ [v]) (skip_ws s2)))"

text \<open>
  \<^verbatim>\<open>json.loads(s)\<close>: leading whitespace, one value, trailing whitespace, and nothing
  else.
\<close>

definition json_loads :: "string \<Rightarrow> exn + pyval" where
  "json_loads s =
     (case scan_once (Suc (2 * length s)) (skip_ws s) of
        Inl e \<Rightarrow> Inl e
      | Inr (v, rest) \<Rightarrow> if skip_ws rest = [] then Inr v else decode_error ''Extra data'')"

text \<open>A result of the decoder that is a value or a \<open>JSONDecodeError\<close>.\<close>

definition decode_failure :: "exn + 'a \<Rightarrow> bool" where
  "decode_failure r = (case r of Inl e \<Rightarrow> exn_class_of e = JSONDecodeError | Inr v \<Rightarrow> True)"

text \<open>
  A result of the scanner on the input \<open>s\<close> that did not run out of fuel and, when it
  is a value, left no more input than it was given.
\<close>

definition within_fuel :: "string \<Rightarrow> exn + ('a \<times> string) \<Rightarrow> bool" where
  "within_fuel s r =
     (case r of
        Inl e \<Rightarrow> str_exn e \<noteq> ''out of fuel''
      | Inr (v, rest) \<Rightarrow> length rest \<le> length s)"

text \<open>\<^verbatim>\<open>extract_json\<close> (services/finance_ai.py)\<close>

definition extract_json :: "string \<Rightarrow> exn + pyval" where
  "extract_json response_text =
     (case (case re_search response_text of
              Some m \<Rightarrow> json_loads m
            | None \<Rightarrow> Inl (Exn ValueError ''No JSON found in OpenAI response'')) of
        Inr v \<Rightarrow> Inr v
      | Inl e \<Rightarrow>
          if exn_class_of e = JSONDecodeError
          then Inr (PDict [(''error'', PStr ''Invalid JSON format from OpenAI'')])
          else Inl e)"

section \<open>The text-generation client\<close>

text \<open>
  The request \<^verbatim>\<open>openai.ChatCompletion.create\<close> is called with. The sampling
  parameters are kept as the text of their literals.
\<close>

record chat_request =
  model :: string
  temperature :: "string option"
  top_p :: "string option"
  messages :: "(string \<times> string) list"
  max_tokens :: nat

text \<open>What a call of the service does: it raises, or it returns a response object.\<close>

datatype api_outcome = Raises exn | Returns pyval

datatype purpose = SpendingRating | LongtermGoals | ShorttermGoals | GoodHabits | BadHabits

text \<open>
  What the code takes from outside the repository. \<open>ChatCompletion_create\<close> is the
  external service: its outcome may depend on the request and on how many calls were made
  before. \<open>render_prompt\<close> is the f-string of a stage with
  \<^verbatim>\<open>json.dumps(payload, indent=2)\<close> in it; \<open>format_value\<close> is the text an
  f-string gives for a value; \<open>fresh_ObjectId k\<close> is the identifier the \<open>k\<close>-th
  \<^verbatim>\<open>ObjectId(None)\<close> of a run generates.
\<close>

record env =
  OPENAI_MODEL :: string
  ChatCompletion_create :: "nat \<Rightarrow> chat_request \<Rightarrow> api_outcome"
  render_prompt :: "purpose \<Rightarrow> pyval \<Rightarrow> string"
  format_value :: "pyval \<Rightarrow> string"
  fresh_ObjectId :: "nat \<Rightarrow> string"

text \<open>
  The state the code acts on: the number of calls made to the service, the documents of
  the \<^verbatim>\<open>users\<close> collection, and the persistence operations issued so far.
\<close>

datatype db_op =
    FindOne string
  | UpdateOneSet string "(string \<times> pyval) list"
  | DeleteOne string

record world =
  api_calls :: nat
  users :: "(string \<times> pyval) list list"
  db_log :: "db_op list"

definition exn_bind :: "exn + 'a \<Rightarrow> ('a \<Rightarrow> exn + 'b) \<Rightarrow> exn + 'b" where
  "exn_bind m f = (case m of Inl e \<Rightarrow> Inl e | Inr v \<Rightarrow> f v)"

definition create_chat ::
  "env \<Rightarrow> chat_request \<Rightarrow> world \<Rightarrow> (exn + pyval) \<times> world" where
  "create_chat env req w =
     (case ChatCompletion_create env (api_calls w) req of
        Raises e \<Rightarrow> Inl e
      | Returns response \<Rightarrow> Inr response,
      w\<lparr>api_calls := Suc (api_calls w)\<rparr>)"

text \<open>\<^verbatim>\<open>response["choices"][0]["message"]["content"].strip()\<close>\<close>

definition first_choice_text :: "pyval \<Rightarrow> exn + string" where
  "first_choice_text response =
     exn_bind (getitem_str response ''choices'') (\<lambda>choices.
     exn_bind (getitem_0 choices) (\<lambda>choice.
     exn_bind (getitem_str choice ''message'') (\<lambda>message.
     exn_bind (getitem_str message ''content'') py_strip)))"

text \<open>\<^verbatim>\<open>call_openai\<close> (services/finance_ai.py): the body of its \<^verbatim>\<open>try\<close>, after the response has arrived.\<close>

definition call_openai_response :: "pyval \<Rightarrow> exn + pyval" where
  "call_openai_response response =
     (if \<not> truthy response then Inl (Exn ValueError ''Empty response from OpenAI API'')
      else
        exn_bind (py_contains ''choices'' response) (\<lambda>has_choices.
          if \<not> has_choices then Inl (Exn ValueError ''Empty response from OpenAI API'')
          else
            exn_bind (getitem_str response ''choices'') (\<lambda>choices.
              if \<not> truthy choices then Inl (Exn ValueError ''Empty response from OpenAI API'')
              else
                exn_bind (first_choice_text response) (\<lambda>response_text.
                  if response_text = []
                  then Inl (Exn ValueError ''OpenAI API returned an empty response'')
                  else extract_json response_text))))"

text \<open>The request \<^verbatim>\<open>call_openai\<close> sends.\<close>

definition call_openai_request :: "env \<Rightarrow> string \<Rightarrow> chat_request" where
  "call_openai_request env query =
     \<lparr>model = OPENAI_MODEL env, temperature = None, top_p = None,
      messages = [(''system'', ''You are a financial expert.''), (''user'', query)],
      max_tokens = 250\<rparr>"

definition call_openai_try :: "env \<Rightarrow> string \<Rightarrow> world \<Rightarrow> (exn + pyval) \<times> world" where
  "call_openai_try env query w =
     (case create_chat env (call_openai_request env query) w of
        (r, w') \<Rightarrow> (exn_bind r call_openai_response, w'))"

text \<open>
  \<^verbatim>\<open>call_openai\<close> with its two handlers: \<^verbatim>\<open>except openai.error.OpenAIError\<close>
  and \<^verbatim>\<open>except Exception\<close>.
\<close>

definition call_openai :: "env \<Rightarrow> string \<Rightarrow> world \<Rightarrow> (exn + pyval) \<times> world" where
  "call_openai env query w =
     (case call_openai_try env query w of
        (Inr v, w') \<Rightarrow> (Inr v, w')
      | (Inl e, w') \<Rightarrow>
          if exn_class_of e = OpenAIError
          then (Inr (PDict [(''error'', PStr ''OpenAI API error. Please try again later.'')]), w')
          else (Inr (PDict [(''error'', PStr (str_exn e))]), w'))"

section \<open>The stages\<close>

definition analyze_spending :: "env \<Rightarrow> pyval \<Rightarrow> world \<Rightarrow> (exn + pyval) \<times> world" where
  "analyze_spending env user_data w =
     call_openai env (render_prompt env SpendingRating (convert_objectid user_data)) w"

definition generate_longterm_goals :: "env \<Rightarrow> pyval \<Rightarrow> world \<Rightarrow> (exn + pyval) \<times> world" where
  "generate_longterm_goals env spend_analysis w =
     call_openai env (render_prompt env LongtermGoals spend_analysis) w"

definition generate_shortterm_goals :: "env \<Rightarrow> pyval \<Rightarrow> world \<Rightarrow> (exn + pyval) \<times> world" where
  "generate_shortterm_goals env spend_analysis w =
     call_openai env (render_prompt env ShorttermGoals spend_analysis) w"

subsection \<open>The result normalizer\<close>

text \<open>
  \<^verbatim>\<open>identify_good_habits\<close>, lines 231 to 238: the inner loop over
  \<^verbatim>\<open>parsed_response[key].items()\<close>, the outer loop over the two keys, the cut to four.
\<close>

fun good_habits_items :: "(string \<times> pyval) list \<Rightarrow> pyval list \<Rightarrow> pyval list" where
  "good_habits_items [] extracted_list = extracted_list"
| "good_habits_items ((sub_key, items) # rest) extracted_list =
     good_habits_items rest
       (case items of PList xs \<Rightarrow> extracted_list @ take 1 xs | _ \<Rightarrow> extracted_list)"

fun good_habits_keys :: "string list \<Rightarrow> pyval \<Rightarrow> pyval list \<Rightarrow> exn + pyval list" where
  "good_habits_keys [] parsed_response extracted_list = Inr extracted_list"
| "good_habits_keys (key # keys) parsed_response extracted_list =
     exn_bind (py_contains key parsed_response) (\<lambda>present.
       if present then
         exn_bind (getitem_str parsed_response key) (\<lambda>sub.
         exn_bind (py_items sub) (\<lambda>kvs.
           good_habits_keys keys parsed_response (good_habits_items kvs extracted_list)))
       else good_habits_keys keys parsed_response extracted_list)"

definition good_habits_top_keys :: "string list" where
  "good_habits_top_keys = [''positiveSpendingOpportunities'', ''growthAreas'']"

definition normalize_good_habits :: "pyval \<Rightarrow> exn + pyval list" where
  "normalize_good_habits parsed_response =
     exn_bind (good_habits_keys good_habits_top_keys parsed_response [])
       (\<lambda>extracted_list. Inr (take 4 extracted_list))"

text \<open>\<^verbatim>\<open>identify_bad_habits\<close>, lines 351 to 358.\<close>

fun bad_habits_keys :: "string list \<Rightarrow> pyval \<Rightarrow> pyval list \<Rightarrow> exn + pyval list" where
  "bad_habits_keys [] parsed_response extracted_list = Inr extracted_list"
| "bad_habits_keys (key # keys) parsed_response extracted_list =
     exn_bind (py_contains key parsed_response) (\<lambda>present.
       if present then
         exn_bind (getitem_str parsed_response key) (\<lambda>items.
           bad_habits_keys keys parsed_response
             (case items of
                PList xs \<Rightarrow> if length xs > 0 then extracted_list @ take 1 xs else extracted_list
              | _ \<Rightarrow> extracted_list))
       else bad_habits_keys keys parsed_response extracted_list)"

definition bad_habits_top_keys :: "string list" where
  "bad_habits_top_keys =
     [''highImpactReductions'', ''debtOptimizations'', ''lifestyleAdjustments'',
      ''smartSubstitutions'']"

definition normalize_bad_habits :: "pyval \<Rightarrow> exn + pyval list" where
  "normalize_bad_habits parsed_response =
     exn_bind (bad_habits_keys bad_habits_top_keys parsed_response [])
       (\<lambda>extracted_list.
          Inr (if extracted_list \<noteq> [] then take 4 extracted_list
               else [PDict [(''error'', PStr ''No negative habits identified.'')]]))"

subsection \<open>The two habit stages\<close>

text \<open>
  The part of the \<^verbatim>\<open>try\<close> both stages share, from the response to the parsed
  object: the text of the first choice, the emptiness check, \<^verbatim>\<open>extract_json\<close>, and
  the check for an \<^verbatim>\<open>error\<close> key.
\<close>

definition habits_parsed_response :: "env \<Rightarrow> pyval \<Rightarrow> exn + pyval" where
  "habits_parsed_response env response =
     exn_bind (first_choice_text response) (\<lambda>response_text.
       if response_text = [] then Inl (Exn ValueError ''OpenAI API returned an empty response'')
       else
         exn_bind (extract_json response_text) (\<lambda>parsed_response.
         exn_bind (py_contains ''error'' parsed_response) (\<lambda>has_error.
           if has_error then
             exn_bind (getitem_str parsed_response ''error'') (\<lambda>err.
               Inl (Exn ValueError (''OpenAI JSON extraction failed: '' @ format_value env err)))
           else Inr parsed_response)))"

text \<open>
  The three handlers of the habit stages: \<^verbatim>\<open>except openai.error.OpenAIError\<close>,
  \<^verbatim>\<open>except json.JSONDecodeError\<close>, \<^verbatim>\<open>except Exception\<close>.
\<close>

definition habits_handlers :: "exn + pyval list \<Rightarrow> pyval" where
  "habits_handlers r =
     (case r of
        Inr xs \<Rightarrow> PList xs
      | Inl e \<Rightarrow>
          if exn_class_of e = OpenAIError
          then PList [PDict [(''error'', PStr ''OpenAI API error. Please try again later.'')]]
          else if exn_class_of e = JSONDecodeError
          then PList [PDict [(''error'', PStr ''Invalid JSON format from OpenAI'')]]
          else PList [PDict [(''error'', PStr (str_exn e))]])"

definition identify_good_habits :: "env \<Rightarrow> pyval \<Rightarrow> world \<Rightarrow> (exn + pyval) \<times> world" where
  "identify_good_habits env user_data w =
     (case create_chat env
             \<lparr>model = OPENAI_MODEL env, temperature = Some ''0.6'', top_p = Some ''0.9'',
              messages = [(''system'', ''You are a financial expert.''),
                          (''user'', render_prompt env GoodHabits (convert_objectid user_data))],
              max_tokens = 500\<rparr> w of
        (r, w') \<Rightarrow>
          (Inr (habits_handlers
                  (exn_bind r (\<lambda>response.
                   exn_bind (habits_parsed_response env response) normalize_good_habits))),
           w'))"

definition identify_bad_habits :: "env \<Rightarrow> pyval \<Rightarrow> world \<Rightarrow> (exn + pyval) \<times> world" where
  "identify_bad_habits env user_data w =
     (case create_chat env
             \<lparr>model = OPENAI_MODEL env, temperature = Some ''0.6'', top_p = Some ''0.9'',
              messages = [(''system'', ''You are a financial expert.''),
                          (''user'', render_prompt env BadHabits (convert_objectid user_data))],
              max_tokens = 600\<rparr> w of
        (r, w') \<Rightarrow>
          (Inr (habits_handlers
                  (exn_bind r (\<lambda>response.
                   exn_bind (habits_parsed_response env response) normalize_bad_habits))),
           w'))"

section \<open>The persistence boundary\<close>

text \<open>
  Modelled from the spec: \<^verbatim>\<open>bson.ObjectId\<close> is not part of the repository. The
  identifier is "an opaque 24-character hex token (rejected with a validation error if
  malformed)": \<^verbatim>\<open>ObjectId.is_valid\<close> accepts a string of 24 hexadecimal digits and
  nothing else, and two identifiers are equal when their digits are, whatever the case of
  the letters.
\<close>

definition hexdigits :: string where
  "hexdigits = ''0123456789abcdefABCDEF''"

definition ObjectId_is_valid :: "string \<Rightarrow> bool" where
  "ObjectId_is_valid user_id = (length user_id = 24 \<and> list_all (\<lambda>c. c \<in> set hexdigits) user_id)"

definition hex_lower :: "char \<Rightarrow> char" where
  "hex_lower c =
     (let n = (of_char c :: nat) in if 65 \<le> n \<and> n \<le> 70 then char_of (n + 32) else c)"

text \<open>\<^verbatim>\<open>ObjectId(user_id)\<close> for a string that passed \<^verbatim>\<open>is_valid\<close>.\<close>

definition ObjectId_of_str :: "string \<Rightarrow> string" where
  "ObjectId_of_str user_id = map hex_lower user_id"

text \<open>
  \<^verbatim>\<open>ObjectId(x)\<close> for any value; \<open>k\<close> counts the constructions of the run, for
  the case that one generates an identifier.
\<close>

fun ObjectId_new :: "env \<Rightarrow> nat \<Rightarrow> pyval \<Rightarrow> exn + string" where
  "ObjectId_new env k (PObjectId oid) = Inr oid"
| "ObjectId_new env k (PStr s) =
     (if ObjectId_is_valid s then Inr (ObjectId_of_str s)
      else Inl (Exn InvalidId (s @ '' is not a valid ObjectId'')))"
| "ObjectId_new env k PNone = Inr (fresh_ObjectId env k)"
| "ObjectId_new env k v =
     Inl (Exn TypeError (''id must be an instance of (bytes, str, ObjectId), not '' @ type_name v))"

text \<open>
  Modelled from the spec: the collection is the external store, "read = fetch-by-identifier
  returning the full stored record or not found; write = field-scoped partial update by
  identifier, applied only to the fields present". The three operations the routes call
  on it, each recorded in the log. The
  filter is always \<^verbatim>\<open>{"_id": oid}\<close>; the first document that matches is the one
  read, updated or deleted. The update document is always \<^verbatim>\<open>{"$set": fields}\<close>,
  which stores each of the fields in the document and touches nothing else in it.
\<close>

definition has_id :: "string \<Rightarrow> (string \<times> pyval) list \<Rightarrow> bool" where
  "has_id oid doc = (map_of doc ''_id'' = Some (PObjectId oid))"

definition find_one :: "string \<Rightarrow> world \<Rightarrow> (string \<times> pyval) list option \<times> world" where
  "find_one oid w = (find (has_id oid) (users w), w\<lparr>db_log := db_log w @ [FindOne oid]\<rparr>)"

text \<open>\<^verbatim>\<open>find_one(filter, {"financial": 1})\<close>: the projection keeps the identifier and the one field.\<close>

definition find_one_financial :: "string \<Rightarrow> world \<Rightarrow> (string \<times> pyval) list option \<times> world" where
  "find_one_financial oid w =
     (map_option (filter (\<lambda>(k, v). k = ''_id'' \<or> k = ''financial'')) (find (has_id oid) (users w)),
      w\<lparr>db_log := db_log w @ [FindOne oid]\<rparr>)"

definition set_fields :: "(string \<times> pyval) list \<Rightarrow> (string \<times> pyval) list \<Rightarrow> (string \<times> pyval) list" where
  "set_fields flds doc = foldl (\<lambda>d (k, v). dict_setitem d k v) doc flds"

fun update_first :: "string \<Rightarrow> (string \<times> pyval) list \<Rightarrow> (string \<times> pyval) list list
                       \<Rightarrow> (string \<times> pyval) list list" where
  "update_first oid flds [] = []"
| "update_first oid flds (doc # docs) =
     (if has_id oid doc then set_fields flds doc # docs
      else doc # update_first oid flds docs)"

definition update_one_set :: "string \<Rightarrow> (string \<times> pyval) list \<Rightarrow> world \<Rightarrow> world" where
  "update_one_set oid flds w =
     w\<lparr>users := update_first oid flds (users w),
       db_log := db_log w @ [UpdateOneSet oid flds]\<rparr>"

fun delete_first :: "string \<Rightarrow> (string \<times> pyval) list list \<Rightarrow> (string \<times> pyval) list list" where
  "delete_first oid [] = []"
| "delete_first oid (doc # docs) =
     (if has_id oid doc then docs else doc # delete_first oid docs)"

text \<open>\<^verbatim>\<open>delete_one\<close> returns its \<^verbatim>\<open>deleted_count\<close>.\<close>

definition delete_one :: "string \<Rightarrow> world \<Rightarrow> nat \<times> world" where
  "delete_one oid w =
     (if find (has_id oid) (users w) = None then 0 else 1,
      w\<lparr>users := delete_first oid (users w), db_log := db_log w @ [DeleteOne oid]\<rparr>)"

section \<open>The analysis orchestrator\<close>

text \<open>
  \<^verbatim>\<open>analyze_and_update_user\<close> (routes/user_data.py), in three parts. Lines 44 to 77:
  the five stages, each in its own \<^verbatim>\<open>try\<close> whose handler takes the stored value.
\<close>

record stage_results =
  spend_analysis :: pyval
  longterm :: pyval
  shortterm :: pyval
  good_habits :: pyval
  bad_habits :: pyval

definition or_stored :: "exn + pyval \<Rightarrow> (string \<times> pyval) list \<Rightarrow> string \<Rightarrow> pyval \<Rightarrow> pyval" where
  "or_stored r user k dflt = (case r of Inr v \<Rightarrow> v | Inl e \<Rightarrow> dict_get user k dflt)"

definition run_stages :: "env \<Rightarrow> (string \<times> pyval) list \<Rightarrow> world \<Rightarrow> stage_results \<times> world" where
  "run_stages env user w =
     (let user_clean = convert_objectid (PDict user) in
      case analyze_spending env user_clean w of (r1, w1) \<Rightarrow>
        let sa = or_stored r1 user ''spend_analysis'' (PDict []) in
        case generate_longterm_goals env sa w1 of (r2, w2) \<Rightarrow>
        case generate_shortterm_goals env sa w2 of (r3, w3) \<Rightarrow>
        case identify_good_habits env user_clean w3 of (r4, w4) \<Rightarrow>
        case identify_bad_habits env user_clean w4 of (r5, w5) \<Rightarrow>
          (\<lparr>spend_analysis = sa,
            longterm = or_stored r2 user ''longterm'' (PDict []),
            shortterm = or_stored r3 user ''shortterm'' (PDict []),
            good_habits = or_stored r4 user ''good_habits'' (PList []),
            bad_habits = or_stored r5 user ''bad_habits'' (PList [])\<rparr>, w5))"

text \<open>Lines 80 to 86: \<^verbatim>\<open>update_data\<close>.\<close>

definition update_data :: "(string \<times> pyval) list \<Rightarrow> stage_results \<Rightarrow> (string \<times> pyval) list" where
  "update_data user r =
     [(''spend_analysis'', py_or (spend_analysis r) (dict_get user ''spend_analysis'' (PDict []))),
      (''longterm'', py_or (longterm r) (dict_get user ''longterm'' (PDict []))),
      (''shortterm'', py_or (shortterm r) (dict_get user ''shortterm'' (PDict []))),
      (''good_habits'', py_or (good_habits r) (dict_get user ''good_habits'' (PList []))),
      (''bad_habits'', py_or (bad_habits r) (dict_get user ''bad_habits'' (PList [])))]"

text \<open>
  Lines 89 to 102: the write, the read of the updated document, the result. Each of the
  two filters builds \<^verbatim>\<open>ObjectId(user["_id"])\<close>.
\<close>

definition persist_and_report ::
  "env \<Rightarrow> (string \<times> pyval) list \<Rightarrow> (string \<times> pyval) list \<Rightarrow> world \<Rightarrow> (exn + pyval) \<times> world" where
  "persist_and_report env user upd w =
     (case exn_bind (getitem_str (PDict user) ''_id'') (ObjectId_new env 0) of
        Inl e \<Rightarrow> (Inl e, w)
      | Inr oid \<Rightarrow>
          (case exn_bind (getitem_str (PDict user) ''_id'') (ObjectId_new env 1) of
             Inl e \<Rightarrow> (Inl e, update_one_set oid upd w)
           | Inr oid' \<Rightarrow>
               (case find_one oid' (update_one_set oid upd w) of
                  (None, w') \<Rightarrow>
                    (Inl (Exn AttributeError
                            ([sq] @ ''NoneType'' @ [sq] @ '' object has no attribute '' @ [sq]
                             @ ''get'' @ [sq])),
                     w')
                | (Some updated_user, w') \<Rightarrow>
                    (Inr (PDict [(''message'', PStr ''Analysis completed and updated''),
                                 (''email'', dict_get updated_user ''email'' PNone),
                                 (''data'', convert_objectid (PDict updated_user))]),
                     w'))))"

definition analyze_and_update_user ::
  "env \<Rightarrow> (string \<times> pyval) list \<Rightarrow> world \<Rightarrow> (exn + pyval) \<times> world" where
  "analyze_and_update_user env user w =
     (case run_stages env user w of
        (r, w') \<Rightarrow> persist_and_report env user (update_data user r) w')"

section \<open>The routes\<close>

text \<open>
  What a route gives the HTTP layer: a payload, an \<^verbatim>\<open>HTTPException\<close> with its status
  code and detail, or an exception nothing caught.
\<close>

datatype http_result =
    Payload pyval
  | HTTPException nat string
  | Uncaught exn

text \<open>\<^verbatim>\<open>verify_and_run_analysis\<close> (routes/user_data.py)\<close>

definition verify_and_run_analysis :: "env \<Rightarrow> string \<Rightarrow> world \<Rightarrow> http_result \<times> world" where
  "verify_and_run_analysis env user_id w =
     (if \<not> ObjectId_is_valid user_id then (HTTPException 400 ''Invalid ObjectID format'', w)
      else
        case find_one (ObjectId_of_str user_id) w of
          (None, w1) \<Rightarrow> (HTTPException 404 ''User not found'', w1)
        | (Some user, w1) \<Rightarrow>
            if user = [] then (HTTPException 404 ''User not found'', w1)
            else if \<not> truthy (dict_get user ''email'' PNone)
            then (HTTPException 404 ''User email not found'', w1)
            else
              (case analyze_and_update_user env user w1 of
                 (Inl e, w2) \<Rightarrow> (Uncaught e, w2)
               | (Inr result, w2) \<Rightarrow> (Payload result, w2)))"

text \<open>\<^verbatim>\<open>delete_user\<close> (routes/user_data.py)\<close>

definition delete_user :: "env \<Rightarrow> string \<Rightarrow> world \<Rightarrow> http_result \<times> world" where
  "delete_user env user_id w =
     (if \<not> ObjectId_is_valid user_id then (HTTPException 400 ''Invalid ObjectID format'', w)
      else
        case delete_one (ObjectId_of_str user_id) w of
          (deleted_count, w1) \<Rightarrow>
            if deleted_count = 0 then (HTTPException 404 ''User not found'', w1)
            else (Payload (PDict [(''message'', PStr ''User deleted successfully'')]), w1))"

text \<open>\<^verbatim>\<open>analyze_user_finances\<close> (routes/analysis.py)\<close>

definition analyze_user_finances :: "env \<Rightarrow> string \<Rightarrow> world \<Rightarrow> http_result \<times> world" where
  "analyze_user_finances env user_id w =
     (if \<not> ObjectId_is_valid user_id then (HTTPException 400 ''Invalid ObjectID format'', w)
      else
        case find_one_financial (ObjectId_of_str user_id) w of
          (None, w1) \<Rightarrow> (HTTPException 404 ''User not found'', w1)
        | (Some user, w1) \<Rightarrow>
            if user = [] then (HTTPException 404 ''User not found'', w1)
            else
              let financial_data = dict_get user ''financial'' (PDict []) in
              if \<not> truthy financial_data
              then (HTTPException 400 ''No financial data found for the user'', w1)
              else
                (case analyze_spending env financial_data w1 of
                   (Inr analysis_result, w2) \<Rightarrow>
                     (Payload (PDict [(''user_id'', PStr user_id), (''analysis'', analysis_result)]),
                      w2)
                 | (Inl e, w2) \<Rightarrow>
                     (HTTPException 500 (''Error analyzing financial data: '' @ str_exn e), w2)))"

section \<open>The selection rule of the normalizer, as the specification words it\<close>

text \<open>
  "For each top-level key, for each nested list found, take its first element (if the list
  is non-empty); accumulate all selected elements across keys into one ordered sequence."
  \<open>first_elements\<close> takes the first element of each value that is a non-empty list, in
  the order of the values. \<open>good_sublists\<close> are the values found under the two keys of
  the good habits, each key holding an object of sub-lists; \<open>bad_sublists\<close> are the
  values of the four keys of the bad habits, each a list.
\<close>

definition first_elements :: "pyval list \<Rightarrow> pyval list" where
  "first_elements vs = concat (map (\<lambda>v. case v of PList xs \<Rightarrow> take 1 xs | _ \<Rightarrow> []) vs)"

fun populated :: "pyval \<Rightarrow> bool" where
  "populated (PList (x # xs)) = True"
| "populated v = False"

definition good_sublists :: "(string \<times> pyval) list \<Rightarrow> pyval list" where
  "good_sublists d =
     concat (map (\<lambda>key. case map_of d key of Some (PDict sub) \<Rightarrow> map snd sub | _ \<Rightarrow> [])
               good_habits_top_keys)"

definition bad_sublists :: "(string \<times> pyval) list \<Rightarrow> pyval list" where
  "bad_sublists d =
     concat (map (\<lambda>key. case map_of d key of Some v \<Rightarrow> [v] | None \<Rightarrow> []) bad_habits_top_keys)"

text \<open>The five keys of the derived fields.\<close>

definition derived_keys :: "string list" where
  "derived_keys = [''spend_analysis'', ''longterm'', ''shortterm'', ''good_habits'', ''bad_habits'']"

text \<open>The fields of a document other than the derived ones, in the document's order.\<close>

definition other_fields :: "(string \<times> pyval) list \<Rightarrow> (string \<times> pyval) list" where
  "other_fields doc = filter (\<lambda>kv. fst kv \<notin> set derived_keys) doc"

section \<open>Fixtures\<close>

text \<open>
  A response of the service with one choice, and environments in which the service
  always answers with a given text or always fails; a world with no documents.
\<close>

definition chat_response :: "string \<Rightarrow> pyval" where
  "chat_response content =
     PDict [(''choices'',
             PList [PDict [(''message'',
                            PDict [(''role'', PStr ''assistant''), (''content'', PStr content)])]])]"

definition service_returning :: "string \<Rightarrow> env" where
  "service_returning content =
     \<lparr>OPENAI_MODEL = ''gpt-4'',
      ChatCompletion_create = (\<lambda>n req. Returns (chat_response content)),
      render_prompt = (\<lambda>p v. ''prompt''),
      format_value = (\<lambda>v. ''value''),
      fresh_ObjectId = (\<lambda>k. ''000000000000000000000000'')\<rparr>"

definition service_failing :: env where
  "service_failing =
     \<lparr>OPENAI_MODEL = ''gpt-4'',
      ChatCompletion_create = (\<lambda>n req. Raises (Exn OpenAIError ''Rate limit reached'')),
      render_prompt = (\<lambda>p v. ''prompt''),
      format_value = (\<lambda>v. ''value''),
      fresh_ObjectId = (\<lambda>k. ''000000000000000000000000'')\<rparr>"

text \<open>
  An environment in which the service answers its calls from a list, one outcome per call
  in the order of the calls, and fails once the list is used up.
\<close>

definition service_scripted :: "api_outcome list \<Rightarrow> env" where
  "service_scripted outcomes =
     \<lparr>OPENAI_MODEL = ''gpt-4'',
      ChatCompletion_create =
        (\<lambda>n req. if n < length outcomes then outcomes ! n
                 else Raises (Exn OpenAIError ''Rate limit reached'')),
      render_prompt = (\<lambda>p v. ''prompt''),
      format_value = (\<lambda>v. ''value''),
      fresh_ObjectId = (\<lambda>k. ''000000000000000000000000'')\<rparr>"

definition empty_world :: world where
  "empty_world = \<lparr>api_calls = 0, users = [], db_log = []\<rparr>"

text \<open>
  A stored record that has all five derived fields, and a world that holds it.
\<close>

definition stored_user :: "(string \<times> pyval) list" where
  "stored_user =
     [(''_id'', PObjectId ''652f1c0e9b1e8a3d5c7f0a12''),
      (''email'', PStr ''asha@example.com''),
      (''fullName'', PStr ''Asha Rao''),
      (''financial'', PDict [(''monthlyIncome'', PInt 50000), (''savingsGoal'', PInt 10000)]),
      (''spend_analysis'',
       PDict [(''rating'', PInt 40), (''analysis'', PList [PStr ''overspending on essentials''])]),
      (''longterm'', PDict [(''longterm_goals'', PList [PStr ''Buy a house''])]),
      (''shortterm'', PDict [(''shortterm_goals'', PList [PStr ''Build an emergency fund''])]),
      (''good_habits'', PList [PDict [(''category'', PStr ''Index funds'')]]),
      (''bad_habits'', PList [PDict [(''category'', PStr ''Dining out'')]])]"

definition stored_world :: world where
  "stored_world = \<lparr>api_calls = 0, users = [stored_user], db_log = []\<rparr>"

section \<open>Properties of the extractor\<close>

subsection \<open>The match of the regular expression\<close>

lemma dotstar_rbrace_none_iff: "dotstar_rbrace s = None \<longleftrightarrow> CHR ''}'' \<notin> set s"
  by (induction s) (auto split: option.splits)

lemma dotstar_rbrace_last:
  "CHR ''}'' \<notin> set post \<Longrightarrow> dotstar_rbrace (xs @ CHR ''}'' # post) = Some (xs @ [CHR ''}''])"
  by (induction xs) (auto simp: dotstar_rbrace_none_iff [THEN iffD2])

lemma re_search_skip: "CHR ''{'' \<notin> set pre \<Longrightarrow> re_search (pre @ s) = re_search s"
  by (induction pre) auto

text \<open>
  Where no opening brace stands before an object's text and no closing brace after it, the
  match is the object's text.
\<close>

lemma re_search_span:
  assumes "CHR ''{'' \<notin> set pre" and "CHR ''}'' \<notin> set post"
  shows "re_search (pre @ (CHR ''{'' # mid @ [CHR ''}'']) @ post) = Some (CHR ''{'' # mid @ [CHR ''}''])"
  using assms by (simp add: re_search_skip dotstar_rbrace_last)

lemma re_search_starts: "re_search s = Some m \<Longrightarrow> \<exists>r. m = CHR ''{'' # r"
  by (induction s) (auto split: option.splits if_splits)

text \<open>There is a match exactly when some closing brace stands after some opening brace.\<close>

lemma re_search_none_iff:
  "re_search s = None \<longleftrightarrow> \<not> (\<exists>a b c. s = a @ CHR ''{'' # b @ CHR ''}'' # c)"
proof (induction s)
  case Nil
  then show ?case by simp
next
  case (Cons x s)
  show ?case
  proof (cases "x = CHR ''{''")
    case True
    show ?thesis
    proof (cases "CHR ''}'' \<in> set s")
      case in_s: True
      then obtain b c where "s = b @ CHR ''}'' # c" by (meson split_list)
      then have "x # s = [] @ CHR ''{'' # b @ CHR ''}'' # c" using True by simp
      moreover have "re_search (x # s) \<noteq> None"
        using in_s True by (auto simp: dotstar_rbrace_none_iff split: option.splits)
      ultimately show ?thesis by blast
    next
      case False
      then have none: "dotstar_rbrace s = None" by (simp add: dotstar_rbrace_none_iff)
      have no_span: "\<not> (\<exists>a b c. x # s = a @ CHR ''{'' # b @ CHR ''}'' # c)"
      proof
        assume "\<exists>a b c. x # s = a @ CHR ''{'' # b @ CHR ''}'' # c"
        then obtain a b c where "x # s = a @ CHR ''{'' # b @ CHR ''}'' # c" by blast
        then have "CHR ''}'' \<in> set (x # s)" by simp
        with False True show False by simp
      qed
      have "\<not> (\<exists>a b c. s = a @ CHR ''{'' # b @ CHR ''}'' # c)" using False by auto
      with Cons.IH have "re_search s = None" by simp
      with no_span True none show ?thesis by simp
    qed
  next
    case False
    have "(\<exists>a b c. x # s = a @ CHR ''{'' # b @ CHR ''}'' # c)
            \<longleftrightarrow> (\<exists>a b c. s = a @ CHR ''{'' # b @ CHR ''}'' # c)"
    proof
      assume "\<exists>a b c. x # s = a @ CHR ''{'' # b @ CHR ''}'' # c"
      then obtain a b c where e: "x # s = a @ CHR ''{'' # b @ CHR ''}'' # c" by blast
      with False obtain a' where "a = x # a'" by (cases a) auto
      with e show "\<exists>a b c. s = a @ CHR ''{'' # b @ CHR ''}'' # c" by auto
    next
      assume "\<exists>a b c. s = a @ CHR ''{'' # b @ CHR ''}'' # c"
      then obtain a b c where "s = a @ CHR ''{'' # b @ CHR ''}'' # c" by blast
      then have "x # s = (x # a) @ CHR ''{'' # b @ CHR ''}'' # c" by simp
      then show "\<exists>a b c. x # s = a @ CHR ''{'' # b @ CHR ''}'' # c" by blast
    qed
    with Cons.IH False show ?thesis by simp
  qed
qed

subsection \<open>The decoder\<close>

text \<open>A text that starts with an opening brace decodes to a dictionary or not at all.\<close>

lemma JSONObject_dict: "JSONObject n acc s = Inr (v, rest) \<Longrightarrow> \<exists>d. v = PDict d"
proof (induction n arbitrary: acc s)
  case 0
  then show ?case by (simp add: decode_error_def)
next
  case (Suc n)
  then show ?case
    by (auto simp: decode_error_def split: sum.splits list.splits if_splits prod.splits)
qed

lemma scan_once_brace_dict:
  "scan_once n (CHR ''{'' # r) = Inr (v, rest) \<Longrightarrow> \<exists>d. v = PDict d"
  by (cases n) (auto simp: decode_error_def dq_def dest: JSONObject_dict split: list.splits if_splits)

lemma skip_ws_brace: "skip_ws (CHR ''{'' # r) = CHR ''{'' # r"
  by (simp add: skip_ws_def is_json_ws_def)

lemma json_loads_brace_dict:
  assumes "json_loads (CHR ''{'' # r) = Inr v"
  shows "\<exists>d. v = PDict d"
proof -
  from assms obtain rest where
    "scan_once (Suc (2 * length (CHR ''{'' # r))) (CHR ''{'' # r) = Inr (v, rest)"
    unfolding json_loads_def skip_ws_brace
    by (auto simp del: scan_once.simps simp: decode_error_def split: sum.splits if_splits)
  then show ?thesis by (rule scan_once_brace_dict)
qed

text \<open>Every failure of the decoder is a \<open>JSONDecodeError\<close>.\<close>

lemma decode_failure_simps [simp]:
  "decode_failure (decode_error m)"
  "decode_failure (Inr v)"
  "decode_failure (Inl e) = (exn_class_of e = JSONDecodeError)"
  by (simp_all add: decode_failure_def decode_error_def)

lemma scan_escape_error_class: "scan_escape s = Inl e \<Longrightarrow> exn_class_of e = JSONDecodeError"
  by (auto simp: decode_error_def scan_escape_def split: if_splits list.splits option.splits)

lemma scanstring_error_class:
  "scanstring s = Inl e \<Longrightarrow> exn_class_of e = JSONDecodeError"
proof (induction s arbitrary: e rule: scanstring.induct)
  case 1
  then show ?case by (auto simp: decode_error_def)
next
  case (2 c cs)
  then show ?case
    by (auto simp: decode_error_def dest: scan_escape_error_class
        split: if_splits sum.splits prod.splits)
qed

lemma scan_once_step_failure:
  assumes jo: "\<And>acc s. decode_failure (JSONObject n acc s)"
    and ja: "\<And>xs s. decode_failure (JSONArray n xs s)"
  shows "decode_failure (scan_once (Suc n) s)"
proof (cases s)
  case Nil
  then show ?thesis by simp
next
  case (Cons c cs)
  consider (str) "c = dq"
    | (obj) "c \<noteq> dq" "c = CHR ''{''"
    | (arr) "c \<noteq> dq" "c \<noteq> CHR ''{''" "c = CHR ''[''"
    | (other) "c \<noteq> dq" "c \<noteq> CHR ''{''" "c \<noteq> CHR ''[''"
    by blast
  then show ?thesis
  proof cases
    case str
    with Cons show ?thesis
      by (auto dest: scanstring_error_class split: sum.split prod.split)
  next
    case obj
    with Cons show ?thesis by (simp add: jo split: list.split)
  next
    case arr
    with Cons show ?thesis by (simp add: ja split: list.split)
  next
    case other
    with Cons show ?thesis by (simp split: option.split prod.split)
  qed
qed

lemma scan_failure:
  "decode_failure (scan_once n s) \<and> decode_failure (JSONObject n acc s)
     \<and> decode_failure (JSONArray n xs s)"
proof (induction n arbitrary: s acc xs)
  case 0
  then show ?case by simp
next
  case (Suc n)
  have so: "\<And>s. decode_failure (scan_once n s)"
    and jo: "\<And>acc s. decode_failure (JSONObject n acc s)"
    and ja: "\<And>xs s. decode_failure (JSONArray n xs s)"
    using Suc.IH by blast+
  have so': "\<And>s e. scan_once n s = Inl e \<Longrightarrow> exn_class_of e = JSONDecodeError"
    using so by (metis decode_failure_simps(3))
  have a: "decode_failure (scan_once (Suc n) s)"
    using jo ja by (rule scan_once_step_failure)
  have b: "decode_failure (JSONObject (Suc n) acc s)"
    by (auto simp: dq_def jo dest: scanstring_error_class so'
        split: sum.split list.split prod.split)
  have c: "decode_failure (JSONArray (Suc n) xs s)"
    by (auto simp: ja dest: so' split: sum.split list.split prod.split)
  from a b c show ?case by blast
qed

lemma json_loads_error_class:
  "json_loads s = Inl e \<Longrightarrow> exn_class_of e = JSONDecodeError"
  using scan_failure [of "Suc (2 * length s)" "skip_ws s"]
  by (auto simp del: scan_once.simps simp: json_loads_def decode_error_def
      split: sum.splits if_splits)

subsection \<open>The fuel of the scanner\<close>

text \<open>
  Every call of the scanner on an input gets more fuel than twice the length of that input
  (an array one more), so no call runs out.
\<close>

lemma within_fuel_simps [simp]:
  "within_fuel s (Inr (v, rest)) = (length rest \<le> length s)"
  "within_fuel s (Inl e) = (str_exn e \<noteq> ''out of fuel'')"
  by (simp_all add: within_fuel_def)

lemma length_skip_ws: "length (skip_ws s) \<le> length s"
  by (simp add: skip_ws_def length_dropWhile_le)

lemma skip_ws_Cons_length: "skip_ws s = c # r \<Longrightarrow> length r < length s"
  using length_skip_ws [of s] by simp

lemma scan_escape_fuel: "scan_escape s = Inl e \<Longrightarrow> str_exn e \<noteq> ''out of fuel''"
  by (auto simp: decode_error_def scan_escape_def split: if_splits list.splits option.splits)

lemma scanstring_fuel: "within_fuel s (scanstring s)"
proof (induction s rule: scanstring.induct)
  case 1
  then show ?case by (simp add: decode_error_def)
next
  case (2 c cs)
  show ?case
  proof (cases "c = dq")
    case True
    then show ?thesis by simp
  next
    case ndq: False
    show ?thesis
    proof (cases "c = bs")
      case True
      show ?thesis
      proof (cases "scan_escape cs")
        case (Inl e)
        with ndq True show ?thesis by (simp add: scan_escape_fuel)
      next
        case (Inr p)
        obtain d k where p: "p = (d, k)" by (cases p)
        from "2.IH"(1) [OF ndq True Inr [unfolded p] refl]
        have "within_fuel (drop k cs) (scanstring (drop k cs))" .
        with ndq True Inr p show ?thesis
          by (auto split: sum.splits prod.splits)
      qed
    next
      case False
      from "2.IH"(2) [OF ndq False] have ih: "\<not> of_char c < (0x20::nat) \<Longrightarrow> within_fuel cs (scanstring cs)" by simp
      with ndq False show ?thesis
        by (auto simp: decode_error_def split: sum.splits prod.splits)
    qed
  qed
qed

lemma scan_fraction_length: "scan_fraction s = (f, r) \<Longrightarrow> length r \<le> length s"
  by (auto simp: scan_fraction_def split: list.splits if_splits
      intro: le_trans [OF length_dropWhile_le])

lemma scan_exponent_length: "scan_exponent s = (f, r) \<Longrightarrow> length r \<le> length s"
  by (auto simp: scan_exponent_def Let_def split: list.splits if_splits prod.splits
      intro: le_trans [OF length_dropWhile_le])

lemma match_number_length: "match_number s = Some (v, r) \<Longrightarrow> length r \<le> length s"
proof -
  assume a: "match_number s = Some (v, r)"
  obtain neg s1 where n: "(case s of [] \<Rightarrow> (False, s) | c # r \<Rightarrow> if c = CHR ''-'' then (True, r) else (False, s)) = (neg, s1)"
    by (cases "(case s of [] \<Rightarrow> (False, s) | c # r \<Rightarrow> if c = CHR ''-'' then (True, r) else (False, s))")
  then have l1: "length s1 \<le> length s" by (auto split: list.splits if_splits)
  from a n obtain d r0 where s1: "s1 = d # r0" and dig: "is_digit d"
    by (cases s1) (auto simp: match_number_def split: if_splits)
  obtain ip s2 where i: "(if d = CHR ''0'' then ([d], r0) else (d # takeWhile is_digit r0, dropWhile is_digit r0)) = (ip, s2)"
    by (cases "(if d = CHR ''0'' then ([d], r0) else (d # takeWhile is_digit r0, dropWhile is_digit r0))")
  then have l2: "length s2 \<le> length r0" by (auto split: if_splits simp: length_dropWhile_le)
  obtain fp s3 where f: "scan_fraction s2 = (fp, s3)" by (cases "scan_fraction s2")
  obtain ep s4 where e: "scan_exponent s3 = (ep, s4)" by (cases "scan_exponent s3")
  from a n s1 dig i f e have "r = s4"
    by (auto simp: match_number_def split: if_splits)
  with l1 l2 s1 scan_fraction_length [OF f] scan_exponent_length [OF e] show ?thesis by simp
qed

lemma scan_constant_length: "scan_constant s = Some (v, r) \<Longrightarrow> length r \<le> length s"
  by (auto simp: scan_constant_def split: if_splits)

lemma scan_once_step_fuel:
  assumes jo: "\<And>acc s. 2 * length s < n \<Longrightarrow> within_fuel s (JSONObject n acc s)"
    and ja: "\<And>xs s. 2 * length s + 1 < n \<Longrightarrow> within_fuel s (JSONArray n xs s)"
    and len: "2 * length s < Suc n"
  shows "within_fuel s (scan_once (Suc n) s)"
proof (cases s)
  case Nil
  then show ?thesis by (simp add: decode_error_def)
next
  case (Cons c cs)
  consider (str) "c = dq"
    | (obj) "c \<noteq> dq" "c = CHR ''{''"
    | (arr) "c \<noteq> dq" "c \<noteq> CHR ''{''" "c = CHR ''[''"
    | (other) "c \<noteq> dq" "c \<noteq> CHR ''{''" "c \<noteq> CHR ''[''"
    by blast
  then show ?thesis
  proof cases
    case str
    from scanstring_fuel [of cs] str Cons show ?thesis
      by (auto split: sum.splits prod.splits)
  next
    case obj
    show ?thesis
    proof (cases "skip_ws cs")
      case Nil
      with obj Cons show ?thesis by (simp add: decode_error_def)
    next
      case (Cons d r)
      then have lr: "length r < length cs" by (rule skip_ws_Cons_length)
      with len \<open>s = c # cs\<close> have "2 * length r < n" by simp
      from jo [OF this, of "[]"] have "within_fuel r (JSONObject n [] r)" .
      then have "within_fuel s (JSONObject n [] r)"
        using lr \<open>s = c # cs\<close> by (auto simp: within_fuel_def split: sum.splits prod.splits)
      with obj Cons \<open>s = c # cs\<close> lr show ?thesis by (simp add: decode_error_def)
    qed
  next
    case arr
    show ?thesis
    proof (cases "skip_ws cs")
      case Nil
      with arr Cons show ?thesis by (simp add: decode_error_def)
    next
      case (Cons d r)
      then have lr: "length (d # r) \<le> length cs" using length_skip_ws [of cs] by simp
      with len \<open>s = c # cs\<close> have "2 * length (d # r) + 1 < n" by simp
      from ja [OF this, of "[]"] have "within_fuel (d # r) (JSONArray n [] (d # r))" .
      then have "within_fuel s (JSONArray n [] (d # r))"
        using lr \<open>s = c # cs\<close> by (auto simp: within_fuel_def split: sum.splits prod.splits)
      with arr Cons \<open>s = c # cs\<close> lr show ?thesis by (simp add: decode_error_def)
    qed
  next
    case other
    with Cons show ?thesis
      by (auto simp: decode_error_def dest: scan_constant_length match_number_length
          split: option.splits prod.splits)
  qed
qed

lemma within_fuel_mono:
  "within_fuel s' r \<Longrightarrow> length s' \<le> length s \<Longrightarrow> within_fuel s r"
  by (auto simp: within_fuel_def split: sum.splits prod.splits)

lemma JSONObject_step_fuel:
  assumes so: "\<And>s. 2 * length s < n \<Longrightarrow> within_fuel s (scan_once n s)"
    and jo: "\<And>acc s. 2 * length s < n \<Longrightarrow> within_fuel s (JSONObject n acc s)"
    and len: "2 * length s < Suc n"
  shows "within_fuel s (JSONObject (Suc n) acc s)"
proof (cases "scanstring s")
  case (Inl e)
  with scanstring_fuel [of s] show ?thesis by simp
next
  case (Inr p)
  obtain key s1 where p: "p = (key, s1)" by (cases p)
  with Inr scanstring_fuel [of s] have l1: "length s1 \<le> length s" by simp
  show ?thesis
  proof (cases "skip_ws s1")
    case Nil
    with Inr p show ?thesis by (simp add: decode_error_def)
  next
    case (Cons c s2)
    then have l2: "length s2 < length s1" by (rule skip_ws_Cons_length)
    show ?thesis
    proof (cases "c = CHR '':''")
      case False
      with Inr p Cons show ?thesis by (simp add: decode_error_def)
    next
      case True
      have l3: "length (skip_ws s2) \<le> length s2" by (rule length_skip_ws)
      with l1 l2 len have "2 * length (skip_ws s2) < n" by simp
      from so [OF this] have v: "within_fuel (skip_ws s2) (scan_once n (skip_ws s2))" .
      show ?thesis
      proof (cases "scan_once n (skip_ws s2)")
        case (Inl e)
        with v Inr p Cons True show ?thesis by simp
      next
        case r: (Inr q)
        obtain val s3 where q: "q = (val, s3)" by (cases q)
        with r v have l4: "length s3 \<le> length (skip_ws s2)" by simp
        show ?thesis
        proof (cases "skip_ws s3")
          case Nil
          with Inr p Cons True r q show ?thesis by (simp add: decode_error_def)
        next
          case c4: (Cons d s4)
          then have l5: "length s4 < length s3" by (rule skip_ws_Cons_length)
          show ?thesis
          proof (cases "d = CHR ''}''")
            case True
            with Inr p Cons \<open>c = CHR '':''\<close> r q c4 l1 l2 l3 l4 l5 show ?thesis by simp
          next
            case nb: False
            show ?thesis
            proof (cases "d = CHR '',''")
              case False
              with Inr p Cons \<open>c = CHR '':''\<close> r q c4 nb show ?thesis by (simp add: decode_error_def)
            next
              case comma: True
              show ?thesis
              proof (cases "skip_ws s4")
                case Nil
                with Inr p Cons \<open>c = CHR '':''\<close> r q c4 nb comma show ?thesis
                  by (simp add: decode_error_def)
              next
                case c5: (Cons qc s5)
                then have l6: "length s5 < length s4" by (rule skip_ws_Cons_length)
                show ?thesis
                proof (cases "qc = dq")
                  case False
                  with Inr p Cons \<open>c = CHR '':''\<close> r q c4 nb comma c5 show ?thesis
                    by (simp add: decode_error_def)
                next
                  case True
                  from l1 l2 l3 l4 l5 l6 len have "2 * length s5 < n" by simp
                  from jo [OF this, of "dict_setitem acc key val"]
                  have "within_fuel s5 (JSONObject n (dict_setitem acc key val) s5)" .
                  moreover from l1 l2 l3 l4 l5 l6 have "length s5 \<le> length s" by simp
                  ultimately have "within_fuel s (JSONObject n (dict_setitem acc key val) s5)"
                    by (rule within_fuel_mono)
                  with Inr p Cons \<open>c = CHR '':''\<close> r q c4 nb comma c5 True show ?thesis
                    by simp
                qed
              qed
            qed
          qed
        qed
      qed
    qed
  qed
qed

lemma JSONArray_step_fuel:
  assumes so: "\<And>s. 2 * length s < n \<Longrightarrow> within_fuel s (scan_once n s)"
    and ja: "\<And>xs s. 2 * length s + 1 < n \<Longrightarrow> within_fuel s (JSONArray n xs s)"
    and len: "2 * length s + 1 < Suc n"
  shows "within_fuel s (JSONArray (Suc n) xs s)"
proof -
  from len have "2 * length s < n" by simp
  from so [OF this] have v: "within_fuel s (scan_once n s)" .
  show ?thesis
  proof (cases "scan_once n s")
    case (Inl e)
    with v show ?thesis by simp
  next
    case (Inr q)
    obtain val s1 where q: "q = (val, s1)" by (cases q)
    with Inr v have l1: "length s1 \<le> length s" by simp
    show ?thesis
    proof (cases "skip_ws s1")
      case Nil
      with Inr q show ?thesis by (simp add: decode_error_def)
    next
      case (Cons d s2)
      then have l2: "length s2 < length s1" by (rule skip_ws_Cons_length)
      show ?thesis
      proof (cases "d = CHR '']''")
        case True
        with Inr q Cons l1 l2 show ?thesis by simp
      next
        case nb: False
        show ?thesis
        proof (cases "d = CHR '',''")
          case False
          with Inr q Cons nb show ?thesis by (simp add: decode_error_def)
        next
          case True
          have l3: "length (skip_ws s2) \<le> length s2" by (rule length_skip_ws)
          with l1 l2 len have "2 * length (skip_ws s2) + 1 < n" by simp
          from ja [OF this, of "xs @ [val]"]
          have "within_fuel (skip_ws s2) (JSONArray n (xs @ [val]) (skip_ws s2))" .
          moreover from l1 l2 l3 have "length (skip_ws s2) \<le> length s" by simp
          ultimately have "within_fuel s (JSONArray n (xs @ [val]) (skip_ws s2))"
            by (rule within_fuel_mono)
          with Inr q Cons nb True show ?thesis by simp
        qed
      qed
    qed
  qed
qed

lemma scan_fuel:
  "(2 * length s < n \<longrightarrow> within_fuel s (scan_once n s))
   \<and> (2 * length s < n \<longrightarrow> within_fuel s (JSONObject n acc s))
   \<and> (2 * length s + 1 < n \<longrightarrow> within_fuel s (JSONArray n xs s))"
proof (induction n arbitrary: s acc xs)
  case 0
  then show ?case by simp
next
  case (Suc n)
  have so: "\<And>s. 2 * length s < n \<Longrightarrow> within_fuel s (scan_once n s)"
    and jo: "\<And>acc s. 2 * length s < n \<Longrightarrow> within_fuel s (JSONObject n acc s)"
    and ja: "\<And>xs s. 2 * length s + 1 < n \<Longrightarrow> within_fuel s (JSONArray n xs s)"
    using Suc.IH by blast+
  have a: "2 * length s < Suc n \<Longrightarrow> within_fuel s (scan_once (Suc n) s)"
    using jo ja by (rule scan_once_step_fuel)
  have b: "2 * length s < Suc n \<Longrightarrow> within_fuel s (JSONObject (Suc n) acc s)"
    using so jo by (rule JSONObject_step_fuel)
  have c: "2 * length s + 1 < Suc n \<Longrightarrow> within_fuel s (JSONArray (Suc n) xs s)"
    using so ja by (rule JSONArray_step_fuel)
  from a b c show ?case by blast
qed

text \<open>The fuel \<open>json_loads\<close> gives the scanner is never used up.\<close>

lemma scan_once_fuel:
  "scan_once (Suc (2 * length s)) (skip_ws s) \<noteq> decode_error ''out of fuel''"
proof -
  have "2 * length (skip_ws s) < Suc (2 * length s)" using length_skip_ws [of s] by simp
  with scan_fuel [of "skip_ws s" "Suc (2 * length s)"]
  have "within_fuel (skip_ws s) (scan_once (Suc (2 * length s)) (skip_ws s))" by blast
  then show ?thesis by (auto simp: decode_error_def)
qed

lemma json_loads_fuel: "json_loads s \<noteq> decode_error ''out of fuel''"
  using scan_once_fuel [of s]
  by (auto simp del: scan_once.simps simp: json_loads_def decode_error_def split: sum.splits if_splits)

subsection \<open>What the extractor returns\<close>

text \<open>
  So \<^verbatim>\<open>extract_json\<close> returns a dictionary, or raises the \<open>ValueError\<close> of its
  \<^verbatim>\<open>else\<close> branch.
\<close>

lemma extract_json_cases:
  "(\<exists>d. extract_json text = Inr (PDict d))
     \<or> extract_json text = Inl (Exn ValueError ''No JSON found in OpenAI response'')"
proof (cases "re_search text")
  case None
  then show ?thesis by (simp add: extract_json_def)
next
  case (Some m)
  then obtain r where m: "m = CHR ''{'' # r" using re_search_starts by blast
  show ?thesis
  proof (cases "json_loads m")
    case (Inl e)
    with Some show ?thesis by (simp add: extract_json_def json_loads_error_class)
  next
    case (Inr v)
    with m obtain d where "v = PDict d" using json_loads_brace_dict by blast
    with Some Inr show ?thesis by (simp add: extract_json_def)
  qed
qed

subsection \<open>One object in surrounding prose\<close>

text \<open>
  Claim C2, as amended. For every raw text made of prose, one well-formed JSON object and
  more prose, where the prose before the object holds no opening brace and the prose after
  it no closing brace, \<^verbatim>\<open>extract_json\<close> returns the object as
  \<^verbatim>\<open>json.loads\<close> decodes it.
\<close>

theorem extract_json_single_object:
  assumes "CHR ''{'' \<notin> set pre" and "CHR ''}'' \<notin> set post"
    and "json_loads (CHR ''{'' # mid @ [CHR ''}'']) = Inr v"
  shows "extract_json (pre @ (CHR ''{'' # mid @ [CHR ''}'']) @ post) = Inr v"
  using assms(3) by (simp only: extract_json_def re_search_span [OF assms(1,2)] option.case sum.case)

text \<open>The theorem at a response with prose on both sides of the object.\<close>

theorem extract_json_single_object_witness:
  \<open>extract_json (''Here is the analysis: '' @ (CHR ''{'' # ''"rating": 40, "analysis": ["ok"]'' @ [CHR ''}'']) @ '' Hope this helps.'')
     = Inr (PDict [(''rating'', PInt 40), (''analysis'', PList [PStr ''ok''])])\<close>
proof -
  have h1: "CHR ''{'' \<notin> set ''Here is the analysis: ''" by simp
  have h2: "CHR ''}'' \<notin> set '' Hope this helps.''" by simp
  have h3: \<open>json_loads (CHR ''{'' # ''"rating": 40, "analysis": ["ok"]'' @ [CHR ''}''])
              = Inr (PDict [(''rating'', PInt 40), (''analysis'', PList [PStr ''ok''])])\<close>
    by code_simp
  show ?thesis by (rule extract_json_single_object [OF h1 h2 h3])
qed

text \<open>
  The claim as it was stated allows any prose. With a closing brace in the prose after the
  object the greedy match runs on to that brace, the decoder finds extra data, and the
  result is the error record, not the object.
\<close>

theorem extract_json_trailing_brace_counterexample:
  \<open>json_loads ''{"rating": 40}'' = Inr (PDict [(''rating'', PInt 40)])
   \<and> extract_json (''Result: '' @ ''{"rating": 40}'' @ '' (see the } above)'')
       = Inr (PDict [(''error'', PStr ''Invalid JSON format from OpenAI'')])\<close>
  by code_simp

subsection \<open>No span in the text\<close>

text \<open>
  The claim C3 as it was stated has \<^verbatim>\<open>extract_json\<close> return an error record for
  a text with no span. It raises instead: the \<open>ValueError\<close> of the \<^verbatim>\<open>else\<close>
  branch is not a \<open>JSONDecodeError\<close>, so the handler does not take it.
\<close>

theorem extract_json_no_match_counterexample:
  "extract_json ''I cannot help with that.'' = Inl (Exn ValueError ''No JSON found in OpenAI response'')"
  by code_simp

lemma extract_json_no_span:
  assumes "\<not> (\<exists>a b c. text = a @ CHR ''{'' # b @ CHR ''}'' # c)"
  shows "extract_json text = Inl (Exn ValueError ''No JSON found in OpenAI response'')"
  using assms by (simp add: extract_json_def re_search_none_iff [THEN iffD2])

lemma exn_bind_simps [simp]:
  "exn_bind (Inr v) f = f v" "exn_bind (Inl e) f = Inl e"
  by (simp_all add: exn_bind_def)

lemma first_choice_text_chat_response:
  "first_choice_text (chat_response raw) = Inr (str_strip raw)"
  by (simp add: first_choice_text_def chat_response_def)

lemma call_openai_response_chat_response:
  "call_openai_response (chat_response raw) =
     (if str_strip raw = [] then Inl (Exn ValueError ''OpenAI API returned an empty response'')
      else extract_json (str_strip raw))"
  by (simp add: call_openai_response_def first_choice_text_def chat_response_def)

lemma habits_parsed_response_chat_response:
  "habits_parsed_response env (chat_response raw) =
     (if str_strip raw = [] then Inl (Exn ValueError ''OpenAI API returned an empty response'')
      else exn_bind (extract_json (str_strip raw)) (\<lambda>parsed_response.
           exn_bind (py_contains ''error'' parsed_response) (\<lambda>has_error.
             if has_error then
               exn_bind (getitem_str parsed_response ''error'') (\<lambda>err.
                 Inl (Exn ValueError (''OpenAI JSON extraction failed: '' @ format_value env err)))
             else Inr parsed_response)))"
  by (simp add: habits_parsed_response_def first_choice_text_chat_response)

text \<open>
  Claim C3, as amended. For every raw text in which no closing brace follows an opening
  brace, \<^verbatim>\<open>extract_json\<close> raises \<open>ValueError\<close> with the message "No JSON found
  in OpenAI response" to its caller; and when the service answers with such a text (not
  empty once stripped), \<^verbatim>\<open>call_openai\<close> and the two habit stages catch the
  exception and return an error record that carries the message.
\<close>

theorem extract_json_no_span_raises:
  assumes "\<not> (\<exists>a b c. text = a @ CHR ''{'' # b @ CHR ''}'' # c)"
  shows "extract_json text = Inl (Exn ValueError ''No JSON found in OpenAI response'')
     \<and> (text \<noteq> [] \<and> str_strip raw = text
          \<and> (\<forall>n req. ChatCompletion_create env n req = Returns (chat_response raw))
        \<longrightarrow> fst (call_openai env query w)
              = Inr (PDict [(''error'', PStr ''No JSON found in OpenAI response'')])
          \<and> fst (identify_good_habits env user_data w)
              = Inr (PList [PDict [(''error'', PStr ''No JSON found in OpenAI response'')]])
          \<and> fst (identify_bad_habits env user_data w)
              = Inr (PList [PDict [(''error'', PStr ''No JSON found in OpenAI response'')]]))"
proof -
  have raises: "extract_json text = Inl (Exn ValueError ''No JSON found in OpenAI response'')"
    using assms by (rule extract_json_no_span)
  have callers: "fst (call_openai env query w)
              = Inr (PDict [(''error'', PStr ''No JSON found in OpenAI response'')])
          \<and> fst (identify_good_habits env user_data w)
              = Inr (PList [PDict [(''error'', PStr ''No JSON found in OpenAI response'')]])
          \<and> fst (identify_bad_habits env user_data w)
              = Inr (PList [PDict [(''error'', PStr ''No JSON found in OpenAI response'')]])"
    if ne: "text \<noteq> []" and strip: "str_strip raw = text"
      and svc: "\<forall>n req. ChatCompletion_create env n req = Returns (chat_response raw)"
  proof -
    have c: "\<And>req. create_chat env req w = (Inr (chat_response raw), w\<lparr>api_calls := Suc (api_calls w)\<rparr>)"
      using svc by (simp add: create_chat_def)
    have 1: "fst (call_openai env query w)
              = Inr (PDict [(''error'', PStr ''No JSON found in OpenAI response'')])"
      using ne strip raises
      by (simp add: call_openai_def call_openai_try_def c call_openai_response_chat_response)
    have 2: "fst (identify_good_habits env user_data w)
              = Inr (PList [PDict [(''error'', PStr ''No JSON found in OpenAI response'')]])"
      using ne strip raises
      by (simp add: identify_good_habits_def c habits_parsed_response_chat_response habits_handlers_def)
    have 3: "fst (identify_bad_habits env user_data w)
              = Inr (PList [PDict [(''error'', PStr ''No JSON found in OpenAI response'')]])"
      using ne strip raises
      by (simp add: identify_bad_habits_def c habits_parsed_response_chat_response habits_handlers_def)
    from 1 2 3 show ?thesis by blast
  qed
  from raises callers show ?thesis by blast
qed

text \<open>The theorem at a response that is prose only.\<close>

theorem extract_json_no_span_raises_witness:
  "extract_json ''Sorry, no data.'' = Inl (Exn ValueError ''No JSON found in OpenAI response'')
     \<and> fst (call_openai (service_returning ''  Sorry, no data. '') ''prompt'' empty_world)
              = Inr (PDict [(''error'', PStr ''No JSON found in OpenAI response'')])
     \<and> fst (identify_good_habits (service_returning ''  Sorry, no data. '') (PDict []) empty_world)
              = Inr (PList [PDict [(''error'', PStr ''No JSON found in OpenAI response'')]])
     \<and> fst (identify_bad_habits (service_returning ''  Sorry, no data. '') (PDict []) empty_world)
              = Inr (PList [PDict [(''error'', PStr ''No JSON found in OpenAI response'')]])"
proof -
  have h: "\<not> (\<exists>a b c. ''Sorry, no data.'' = a @ CHR ''{'' # b @ CHR ''}'' # c)"
  proof
    assume "\<exists>a b c. ''Sorry, no data.'' = a @ CHR ''{'' # b @ CHR ''}'' # c"
    then obtain a b c where "''Sorry, no data.'' = a @ CHR ''{'' # b @ CHR ''}'' # c" by blast
    then have "CHR ''{'' \<in> set ''Sorry, no data.''" by (metis in_set_conv_decomp)
    then show False by simp
  qed
  have n: "''Sorry, no data.'' \<noteq> []" by simp
  have s: "str_strip ''  Sorry, no data. '' = ''Sorry, no data.''" by code_simp
  have svc: "\<forall>n req. ChatCompletion_create (service_returning ''  Sorry, no data. '') n req
                = Returns (chat_response ''  Sorry, no data. '')"
    by (simp add: service_returning_def)
  show ?thesis
    using extract_json_no_span_raises [OF h, of "''  Sorry, no data. ''"
        "service_returning ''  Sorry, no data. ''" "''prompt''" empty_world "PDict []"] n s svc
    by blast
qed

section \<open>Properties of the client\<close>

subsection \<open>The exceptions of the operations, and the handlers that take them\<close>

lemma getitem_str_not_openai: "getitem_str v k = Inl e \<Longrightarrow> exn_class_of e \<noteq> OpenAIError"
  by (cases v) (auto split: option.splits)

lemma getitem_0_not_openai: "getitem_0 v = Inl e \<Longrightarrow> exn_class_of e \<noteq> OpenAIError"
  by (cases v) (auto split: list.splits)

lemma py_strip_not_openai: "py_strip v = Inl e \<Longrightarrow> exn_class_of e \<noteq> OpenAIError"
  by (cases v) auto

lemma py_contains_not_openai: "py_contains k v = Inl e \<Longrightarrow> exn_class_of e \<noteq> OpenAIError"
  by (cases v) auto

lemma first_choice_text_not_openai:
  "first_choice_text response = Inl e \<Longrightarrow> exn_class_of e \<noteq> OpenAIError"
  by (auto simp: first_choice_text_def exn_bind_def split: sum.splits
      dest: getitem_str_not_openai getitem_0_not_openai py_strip_not_openai)

lemma extract_json_not_openai: "extract_json body = Inl e \<Longrightarrow> exn_class_of e \<noteq> OpenAIError"
  using extract_json_cases [of body] by auto

lemma call_openai_response_not_openai:
  "call_openai_response response = Inl e \<Longrightarrow> exn_class_of e \<noteq> OpenAIError"
  by (auto simp: call_openai_response_def exn_bind_def split: if_splits sum.splits
      dest: getitem_str_not_openai py_contains_not_openai first_choice_text_not_openai
        extract_json_not_openai)

text \<open>What the body of the try gives for a response that is a dictionary.\<close>

lemma call_openai_response_dict:
  "call_openai_response (PDict rd) =
     (case map_of rd ''choices'' of
        None \<Rightarrow> Inl (Exn ValueError ''Empty response from OpenAI API'')
      | Some ch \<Rightarrow>
          if \<not> truthy ch then Inl (Exn ValueError ''Empty response from OpenAI API'')
          else (case first_choice_text (PDict rd) of
                  Inl e \<Rightarrow> Inl e
                | Inr body \<Rightarrow>
                    if body = [] then Inl (Exn ValueError ''OpenAI API returned an empty response'')
                    else extract_json body))"
  by (cases rd) (auto simp: call_openai_response_def split: option.splits sum.splits)

lemma call_openai_raises:
  assumes "ChatCompletion_create env (api_calls w) (call_openai_request env query) = Raises e"
  shows "call_openai env query w =
           (Inr (PDict [(''error'',
                         PStr (if exn_class_of e = OpenAIError
                               then ''OpenAI API error. Please try again later.''
                               else str_exn e))]),
            w\<lparr>api_calls := Suc (api_calls w)\<rparr>)"
  using assms by (simp add: call_openai_def call_openai_try_def create_chat_def)

lemma call_openai_returns:
  assumes "ChatCompletion_create env (api_calls w) (call_openai_request env query) = Returns response"
  shows "call_openai env query w =
           (case call_openai_response response of
              Inr v \<Rightarrow> Inr v
            | Inl e \<Rightarrow> Inr (PDict [(''error'', PStr (str_exn e))]),
            w\<lparr>api_calls := Suc (api_calls w)\<rparr>)"
  using assms call_openai_response_not_openai [of response]
  by (auto simp: call_openai_def call_openai_try_def create_chat_def split: sum.splits)

lemma call_openai_response_value:
  assumes "call_openai_response response = Inr v"
  shows "\<exists>body d. first_choice_text response = Inr body \<and> body \<noteq> [] \<and> extract_json body = Inr v
           \<and> v = PDict d"
proof -
  from assms obtain body where b: "first_choice_text response = Inr body" "body \<noteq> []"
      "extract_json body = Inr v"
    by (auto simp: call_openai_response_def exn_bind_def split: if_splits sum.splits)
  moreover from b(3) obtain d where "v = PDict d" using extract_json_cases [of body] by auto
  ultimately show ?thesis by blast
qed

lemma call_openai_response_dict_cases:
  assumes "case call_openai_response (PDict rd) of
             Inr v \<Rightarrow> v = PDict d
           | Inl e \<Rightarrow> d = [(''error'', PStr (str_exn e))]"
  shows "(map_of rd ''choices'' = None \<or> (\<exists>ch. map_of rd ''choices'' = Some ch \<and> \<not> truthy ch)
            \<longrightarrow> d = [(''error'', PStr ''Empty response from OpenAI API'')])
       \<and> (\<forall>ch. map_of rd ''choices'' = Some ch \<and> truthy ch \<longrightarrow>
            (\<forall>e. first_choice_text (PDict rd) = Inl e \<longrightarrow> d = [(''error'', PStr (str_exn e))])
          \<and> (first_choice_text (PDict rd) = Inr []
                \<longrightarrow> d = [(''error'', PStr ''OpenAI API returned an empty response'')])
          \<and> (\<forall>body. first_choice_text (PDict rd) = Inr body \<and> body \<noteq> [] \<longrightarrow>
                (\<forall>v. extract_json body = Inr v \<longrightarrow> v = PDict d)
              \<and> (\<forall>e. extract_json body = Inl e \<longrightarrow> d = [(''error'', PStr (str_exn e))])))"
  using assms unfolding call_openai_response_dict
  by (auto split: option.splits sum.splits if_splits)

text \<open>
  Claim C10. For every prompt and every behaviour of the service, \<^verbatim>\<open>call_openai\<close>
  makes its one call and returns a dictionary, and raises nothing. When the service raises
  an \<open>OpenAIError\<close> the dictionary is the fixed error record, and when it raises any
  other exception it is the error record with the text of that exception. When the service
  returns a response, the dictionary is an error record or the very value
  \<^verbatim>\<open>extract_json\<close> gives for the stripped text of the first choice of that
  response; and for a response object (a dictionary): with the choices missing or empty it
  is the record "Empty response from OpenAI API"; with a failing access to the first
  choice (no message, no content, content not a string) it is the record with the text of
  that exception; with an empty content it is the record "OpenAI API returned an empty
  response"; and otherwise it is the value \<^verbatim>\<open>extract_json\<close> returns for the
  content, or the record with the text of the exception \<^verbatim>\<open>extract_json\<close> raises.
\<close>

theorem call_openai_returns_dict:
  "\<exists>d. call_openai env query w = (Inr (PDict d), w\<lparr>api_calls := Suc (api_calls w)\<rparr>)
     \<and> (\<forall>e. ChatCompletion_create env (api_calls w) (call_openai_request env query) = Raises e \<longrightarrow>
           d = [(''error'',
                 PStr (if exn_class_of e = OpenAIError
                       then ''OpenAI API error. Please try again later.'' else str_exn e))])
     \<and> (\<forall>response.
           ChatCompletion_create env (api_calls w) (call_openai_request env query) = Returns response \<longrightarrow>
           ((\<exists>body. first_choice_text response = Inr body \<and> body \<noteq> []
                    \<and> extract_json body = Inr (PDict d))
            \<or> (\<exists>m. d = [(''error'', PStr m)]))
         \<and> (\<forall>rd. response = PDict rd \<longrightarrow>
               (map_of rd ''choices'' = None \<or> (\<exists>ch. map_of rd ''choices'' = Some ch \<and> \<not> truthy ch)
                  \<longrightarrow> d = [(''error'', PStr ''Empty response from OpenAI API'')])
             \<and> (\<forall>ch. map_of rd ''choices'' = Some ch \<and> truthy ch \<longrightarrow>
                  (\<forall>e. first_choice_text response = Inl e \<longrightarrow> d = [(''error'', PStr (str_exn e))])
                \<and> (first_choice_text response = Inr []
                      \<longrightarrow> d = [(''error'', PStr ''OpenAI API returned an empty response'')])
                \<and> (\<forall>body. first_choice_text response = Inr body \<and> body \<noteq> [] \<longrightarrow>
                      (\<forall>v. extract_json body = Inr v \<longrightarrow> v = PDict d)
                    \<and> (\<forall>e. extract_json body = Inl e
                            \<longrightarrow> d = [(''error'', PStr (str_exn e))])))))"
proof (cases "ChatCompletion_create env (api_calls w) (call_openai_request env query)")
  case (Raises e)
  from call_openai_raises [OF Raises] Raises show ?thesis by simp
next
  case (Returns response)
  note r = call_openai_returns [OF Returns]
  show ?thesis
  proof (cases "call_openai_response response")
    case (Inl e)
    let ?d = "[(''error'', PStr (str_exn e))]"
    have 1: "call_openai env query w = (Inr (PDict ?d), w\<lparr>api_calls := Suc (api_calls w)\<rparr>)"
      using r Inl by simp
    have 2: "(\<exists>body. first_choice_text response = Inr body \<and> body \<noteq> []
                    \<and> extract_json body = Inr (PDict ?d))
            \<or> (\<exists>m. ?d = [(''error'', PStr m)])"
      by blast
    have 3: "case call_openai_response (PDict rd) of
               Inr v \<Rightarrow> v = PDict ?d
             | Inl e \<Rightarrow> ?d = [(''error'', PStr (str_exn e))]"
      if "response = PDict rd" for rd
      using that Inl by simp
    show ?thesis
      apply (rule exI [of _ ?d])
      using 1 2 Returns call_openai_response_dict_cases [OF 3]
      by (simp (no_asm_simp)) blast
  next
    case (Inr v)
    from call_openai_response_value [OF Inr] obtain body d where
      b: "first_choice_text response = Inr body" "body \<noteq> []" "extract_json body = Inr v"
        "v = PDict d"
      by blast
    have 1: "call_openai env query w = (Inr (PDict d), w\<lparr>api_calls := Suc (api_calls w)\<rparr>)"
      using r Inr b(4) by simp
    have 2: "(\<exists>body. first_choice_text response = Inr body \<and> body \<noteq> []
                    \<and> extract_json body = Inr (PDict d))
            \<or> (\<exists>m. d = [(''error'', PStr m)])"
      using b by blast
    have 3: "case call_openai_response (PDict rd) of
               Inr v \<Rightarrow> v = PDict d
             | Inl e \<Rightarrow> d = [(''error'', PStr (str_exn e))]"
      if "response = PDict rd" for rd
      using that Inr b(4) by simp
    show ?thesis
      apply (rule exI [of _ d])
      using 1 2 Returns call_openai_response_dict_cases [OF 3]
      by (simp (no_asm_simp)) blast
  qed
qed

text \<open>
  The theorem at six behaviours of the service: a rate limit, another exception, an empty
  list of choices, a blank content, a content with no JSON, and a content with an object
  in prose.
\<close>

theorem call_openai_returns_dict_witness:
  \<open>fst (call_openai service_failing ''prompt'' empty_world)
     = Inr (PDict [(''error'', PStr ''OpenAI API error. Please try again later.'')])
   \<and> fst (call_openai (service_scripted [Raises (Exn OtherException ''Connection reset'')])
            ''prompt'' empty_world)
     = Inr (PDict [(''error'', PStr ''Connection reset'')])
   \<and> fst (call_openai (service_scripted [Returns (PDict [(''choices'', PList [])])])
            ''prompt'' empty_world)
     = Inr (PDict [(''error'', PStr ''Empty response from OpenAI API'')])
   \<and> fst (call_openai (service_returning ''   '') ''prompt'' empty_world)
     = Inr (PDict [(''error'', PStr ''OpenAI API returned an empty response'')])
   \<and> fst (call_openai (service_returning ''I cannot help with that.'') ''prompt'' empty_world)
     = Inr (PDict [(''error'', PStr ''No JSON found in OpenAI response'')])
   \<and> fst (call_openai (service_returning ''Here you are: {"rating": 40} Good luck.'')
            ''prompt'' empty_world)
     = Inr (PDict [(''rating'', PInt 40)])\<close>
proof -
  have a: "fst (call_openai service_failing ''prompt'' empty_world)
     = Inr (PDict [(''error'', PStr ''OpenAI API error. Please try again later.'')])"
  proof -
    have o: "ChatCompletion_create service_failing (api_calls empty_world)
               (call_openai_request service_failing ''prompt'')
             = Raises (Exn OpenAIError ''Rate limit reached'')"
      by (simp add: service_failing_def)
    from call_openai_returns_dict [of service_failing "''prompt''" empty_world] o
    show ?thesis by auto
  qed
  have b: "fst (call_openai (service_scripted [Raises (Exn OtherException ''Connection reset'')])
            ''prompt'' empty_world)
     = Inr (PDict [(''error'', PStr ''Connection reset'')])"
  proof -
    let ?env = "service_scripted [Raises (Exn OtherException ''Connection reset'')]"
    have o: "ChatCompletion_create ?env (api_calls empty_world) (call_openai_request ?env ''prompt'')
             = Raises (Exn OtherException ''Connection reset'')"
      by (simp add: service_scripted_def empty_world_def)
    from call_openai_returns_dict [of ?env "''prompt''" empty_world] o
    show ?thesis by auto
  qed
  have c: "fst (call_openai (service_scripted [Returns (PDict [(''choices'', PList [])])])
            ''prompt'' empty_world)
     = Inr (PDict [(''error'', PStr ''Empty response from OpenAI API'')])"
  proof -
    let ?env = "service_scripted [Returns (PDict [(''choices'', PList [])])]"
    have o: "ChatCompletion_create ?env (api_calls empty_world) (call_openai_request ?env ''prompt'')
             = Returns (PDict [(''choices'', PList [])])"
      by (simp add: service_scripted_def empty_world_def)
    have m: "map_of [(''choices'', PList [])] ''choices'' = Some (PList []) \<and> \<not> truthy (PList [])"
      by simp
    from call_openai_returns_dict [of ?env "''prompt''" empty_world] o m
    show ?thesis by auto
  qed
  have d: "fst (call_openai (service_returning ''   '') ''prompt'' empty_world)
     = Inr (PDict [(''error'', PStr ''OpenAI API returned an empty response'')])"
  proof -
    let ?env = "service_returning ''   ''"
    have o: "ChatCompletion_create ?env (api_calls empty_world) (call_openai_request ?env ''prompt'')
             = Returns (chat_response ''   '')"
      by (simp add: service_returning_def)
    have f: "first_choice_text (chat_response ''   '') = Inr []" by code_simp
    obtain rd ch where m: "chat_response ''   '' = PDict rd" "map_of rd ''choices'' = Some ch"
        "truthy ch"
      by (simp add: chat_response_def)
    from call_openai_returns_dict [of ?env "''prompt''" empty_world] o f m
    show ?thesis by auto
  qed
  have e: "fst (call_openai (service_returning ''I cannot help with that.'') ''prompt'' empty_world)
     = Inr (PDict [(''error'', PStr ''No JSON found in OpenAI response'')])"
  proof -
    let ?env = "service_returning ''I cannot help with that.''"
    have o: "ChatCompletion_create ?env (api_calls empty_world) (call_openai_request ?env ''prompt'')
             = Returns (chat_response ''I cannot help with that.'')"
      by (simp add: service_returning_def)
    have f: "first_choice_text (chat_response ''I cannot help with that.'')
               = Inr ''I cannot help with that.''"
      by code_simp
    have x: "extract_json ''I cannot help with that.''
               = Inl (Exn ValueError ''No JSON found in OpenAI response'')"
      by code_simp
    have n: "''I cannot help with that.'' \<noteq> []" by simp
    obtain rd ch where m: "chat_response ''I cannot help with that.'' = PDict rd"
        "map_of rd ''choices'' = Some ch" "truthy ch"
      by (simp add: chat_response_def)
    from call_openai_returns_dict [of ?env "''prompt''" empty_world] o f x n m
    show ?thesis by auto
  qed
  have g: \<open>fst (call_openai (service_returning ''Here you are: {"rating": 40} Good luck.'')
            ''prompt'' empty_world)
     = Inr (PDict [(''rating'', PInt 40)])\<close>
  proof -
    let ?raw = \<open>''Here you are: {"rating": 40} Good luck.''\<close>
    let ?env = "service_returning ?raw"
    have o: "ChatCompletion_create ?env (api_calls empty_world) (call_openai_request ?env ''prompt'')
             = Returns (chat_response ?raw)"
      by (simp add: service_returning_def)
    have f: "first_choice_text (chat_response ?raw) = Inr ?raw" by code_simp
    have x: "extract_json ?raw = Inr (PDict [(''rating'', PInt 40)])" by code_simp
    have n: "?raw \<noteq> []" by simp
    obtain rd ch where m: "chat_response ?raw = PDict rd" "map_of rd ''choices'' = Some ch" "truthy ch"
      by (simp add: chat_response_def)
    from call_openai_returns_dict [of ?env "''prompt''" empty_world] o f x n m
    show ?thesis by auto
  qed
  from a b c d e g show ?thesis by blast
qed

text \<open>
  A content made of Unicode whitespace only (a no-break space, an em space, an ideographic
  space) is blank once stripped.
\<close>

lemma call_openai_unicode_blank_content:
  "fst (call_openai
          (service_returning
             [CHR 0xC2, CHR 0xA0, CHR 0xE2, CHR 0x80, CHR 0x83, CHR 0xE3, CHR 0x80, CHR 0x80])
          ''prompt'' empty_world)
     = Inr (PDict [(''error'', PStr ''OpenAI API returned an empty response'')])"
  by code_simp

section \<open>Properties of the normalizer\<close>

subsection \<open>The loops compute the selection rule\<close>

lemma first_elements_Nil [simp]: "first_elements [] = []"
  by (simp add: first_elements_def)

lemma first_elements_Cons:
  "first_elements (v # vs) = (case v of PList xs \<Rightarrow> take 1 xs | _ \<Rightarrow> []) @ first_elements vs"
  by (simp add: first_elements_def)

lemma first_elements_append [simp]:
  "first_elements (us @ vs) = first_elements us @ first_elements vs"
  by (simp add: first_elements_def)

lemma good_habits_items_eq:
  "good_habits_items kvs acc = acc @ first_elements (map snd kvs)"
  by (induction kvs arbitrary: acc) (auto simp: first_elements_Cons split: pyval.splits)

lemma good_habits_keys_eq:
  assumes "\<forall>key \<in> set keys. \<forall>v. map_of d key = Some v \<longrightarrow> (\<exists>sub. v = PDict sub)"
  shows "good_habits_keys keys (PDict d) acc =
           Inr (acc @ first_elements
                  (concat (map (\<lambda>key. case map_of d key of Some (PDict sub) \<Rightarrow> map snd sub | _ \<Rightarrow> []) keys)))"
  using assms
proof (induction keys arbitrary: acc)
  case Nil
  then show ?case by simp
next
  case (Cons key keys)
  show ?case
  proof (cases "map_of d key")
    case None
    with Cons show ?thesis by simp
  next
    case (Some v)
    with Cons.prems obtain sub where "v = PDict sub" by auto
    with Some Cons show ?thesis by (simp add: good_habits_items_eq)
  qed
qed

lemma bad_habits_keys_eq:
  "bad_habits_keys keys (PDict d) acc =
     Inr (acc @ first_elements
            (concat (map (\<lambda>key. case map_of d key of Some v \<Rightarrow> [v] | None \<Rightarrow> []) keys)))"
proof (induction keys arbitrary: acc)
  case Nil
  then show ?case by simp
next
  case (Cons key keys)
  show ?case
  proof (cases "map_of d key")
    case None
    with Cons show ?thesis by simp
  next
    case (Some v)
    with Cons show ?thesis by (cases v) (simp_all add: first_elements_Cons)
  qed
qed

lemma length_first_elements:
  "length (first_elements vs) = length (filter populated vs)"
proof (induction vs)
  case Nil
  then show ?case by simp
next
  case (Cons v vs)
  then show ?case
    by (cases v rule: populated.cases) (simp_all add: first_elements_Cons)
qed

text \<open>
  Claim C5. For every parsed habit object, the normalizer takes the first element of each
  non-empty sub-list under the declared top-level keys, the keys in their fixed order and
  the sub-keys of a key in the order the object holds them, keeps the order of encounter,
  and cuts the result to four; so the output has as many elements as there are populated
  sub-lists, and four when there are four or more (six, say). For the good habits the
  value under a top-level key is an object of sub-lists; for the bad habits it is the list
  itself, and the rule gives the output whenever it selects anything.
\<close>

theorem normalizer_first_elements_capped:
  "((\<forall>key \<in> set good_habits_top_keys. \<forall>v. map_of d key = Some v \<longrightarrow> (\<exists>sub. v = PDict sub))
      \<longrightarrow> normalize_good_habits (PDict d) = Inr (take 4 (first_elements (good_sublists d))))
   \<and> (first_elements (bad_sublists d) \<noteq> []
      \<longrightarrow> normalize_bad_habits (PDict d) = Inr (take 4 (first_elements (bad_sublists d))))
   \<and> length (take 4 (first_elements vs)) = min 4 (length (filter populated vs))"
proof -
  have good: "normalize_good_habits (PDict d) = Inr (take 4 (first_elements (good_sublists d)))"
    if "\<forall>key \<in> set good_habits_top_keys. \<forall>v. map_of d key = Some v \<longrightarrow> (\<exists>sub. v = PDict sub)"
    using good_habits_keys_eq [OF that, of "[]"]
    by (simp add: normalize_good_habits_def good_sublists_def)
  have bad: "normalize_bad_habits (PDict d) = Inr (take 4 (first_elements (bad_sublists d)))"
    if "first_elements (bad_sublists d) \<noteq> []"
    using that bad_habits_keys_eq [of bad_habits_top_keys d "[]"]
    by (simp add: normalize_bad_habits_def bad_sublists_def)
  have len: "length (take 4 (first_elements vs)) = min 4 (length (filter populated vs))"
    by (simp add: length_first_elements min.commute)
  from good bad len show ?thesis by blast
qed

text \<open>
  The theorem at a good-habits object with six populated sub-lists, and at a bad-habits
  object whose keys come in another order than the declared one.
\<close>

theorem normalizer_first_elements_capped_witness:
  "normalize_good_habits
     (PDict [(''positiveSpendingOpportunities'',
              PDict [(''investments'', PList [PStr ''i1'', PStr ''i2'']),
                     (''selfDevelopment'', PList [PStr ''s1'']),
                     (''protectiveSpending'', PList [PStr ''p1''])]),
             (''growthAreas'',
              PDict [(''skillEnhancement'', PList [PStr ''k1'']),
                     (''certifications'', PList [PStr ''c1'']),
                     (''networking'', PList [PStr ''n1'', PStr ''n2''])])])
     = Inr [PStr ''i1'', PStr ''s1'', PStr ''p1'', PStr ''k1'']
   \<and> normalize_bad_habits
     (PDict [(''smartSubstitutions'', PList [PStr ''s1'', PStr ''s2'']),
             (''debtOptimizations'', PList []),
             (''highImpactReductions'', PList [PStr ''h1''])])
     = Inr [PStr ''h1'', PStr ''s1'']"
proof -
  let ?g = "[(''positiveSpendingOpportunities'',
              PDict [(''investments'', PList [PStr ''i1'', PStr ''i2'']),
                     (''selfDevelopment'', PList [PStr ''s1'']),
                     (''protectiveSpending'', PList [PStr ''p1''])]),
             (''growthAreas'',
              PDict [(''skillEnhancement'', PList [PStr ''k1'']),
                     (''certifications'', PList [PStr ''c1'']),
                     (''networking'', PList [PStr ''n1'', PStr ''n2''])])]"
  let ?b = "[(''smartSubstitutions'', PList [PStr ''s1'', PStr ''s2'']),
             (''debtOptimizations'', PList []),
             (''highImpactReductions'', PList [PStr ''h1''])]"
  have shape: "\<forall>key \<in> set good_habits_top_keys. \<forall>v. map_of ?g key = Some v \<longrightarrow> (\<exists>sub. v = PDict sub)"
    by (simp add: good_habits_top_keys_def)
  have g: "take 4 (first_elements (good_sublists ?g)) = [PStr ''i1'', PStr ''s1'', PStr ''p1'', PStr ''k1'']"
    by code_simp
  have b: "first_elements (bad_sublists ?b) = [PStr ''h1'', PStr ''s1'']"
    by code_simp
  have "normalize_good_habits (PDict ?g) = Inr (take 4 (first_elements (good_sublists ?g)))"
    using normalizer_first_elements_capped [of ?g] shape by blast
  moreover have "normalize_bad_habits (PDict ?b) = Inr (take 4 (first_elements (bad_sublists ?b)))"
    using normalizer_first_elements_capped [of ?b] b by simp
  ultimately show ?thesis using g b by simp
qed

subsection \<open>Nothing selected\<close>

text \<open>The bad-habits normalizer never returns an empty sequence, and neither does its stage.\<close>

lemma normalize_bad_habits_nonempty:
  "normalize_bad_habits v = Inr xs \<Longrightarrow> xs \<noteq> []"
  by (auto simp: normalize_bad_habits_def exn_bind_def split: sum.splits if_splits)

lemma identify_bad_habits_nonempty:
  "fst (identify_bad_habits env user_data w) = Inr (PList xs) \<Longrightarrow> xs \<noteq> []"
  by (auto simp: identify_bad_habits_def habits_handlers_def exn_bind_def
      dest: normalize_bad_habits_nonempty split: prod.splits sum.splits if_splits)

lemma identify_bad_habits_empty_sublists:
  \<open>fst (identify_bad_habits
          (service_returning ''{"highImpactReductions": [], "debtOptimizations": [], "lifestyleAdjustments": [], "smartSubstitutions": []}'')
          (PDict []) empty_world) = Inr (PList [PDict [(''error'', PStr ''No negative habits identified.'')]])\<close>
  by code_simp

text \<open>
  Claim C4 asks the same of the good habits. The code at a response where every sub-list
  is empty: the good-habits stage returns the empty list.
\<close>

theorem identify_good_habits_empty_sublists:
  \<open>fst (identify_good_habits
          (service_returning ''{"positiveSpendingOpportunities": {"investments": [], "selfDevelopment": [], "protectiveSpending": []}, "growthAreas": {"skillEnhancement": []}}'')
          (PDict []) empty_world) = Inr (PList [])\<close>
  by code_simp

section \<open>Properties of the orchestrator and the routes\<close>

subsection \<open>The stages change nothing but the count of calls\<close>

lemma call_openai_never_raises: "\<exists>v. fst (call_openai env query w) = Inr v"
  by (auto simp: call_openai_def split: prod.splits sum.splits)

lemma call_openai_world:
  "snd (call_openai env query w) = w\<lparr>api_calls := Suc (api_calls w)\<rparr>"
  by (auto simp: call_openai_def call_openai_try_def create_chat_def split: prod.splits sum.splits)

lemma identify_good_habits_world:
  "snd (identify_good_habits env u w) = w\<lparr>api_calls := Suc (api_calls w)\<rparr>"
  by (simp add: identify_good_habits_def create_chat_def)

lemma identify_bad_habits_world:
  "snd (identify_bad_habits env u w) = w\<lparr>api_calls := Suc (api_calls w)\<rparr>"
  by (simp add: identify_bad_habits_def create_chat_def)

lemma analyze_spending_world:
  "snd (analyze_spending env u w) = w\<lparr>api_calls := Suc (api_calls w)\<rparr>"
  by (simp add: analyze_spending_def call_openai_world)

lemma generate_longterm_goals_world:
  "snd (generate_longterm_goals env u w) = w\<lparr>api_calls := Suc (api_calls w)\<rparr>"
  by (simp add: generate_longterm_goals_def call_openai_world)

lemma generate_shortterm_goals_world:
  "snd (generate_shortterm_goals env u w) = w\<lparr>api_calls := Suc (api_calls w)\<rparr>"
  by (simp add: generate_shortterm_goals_def call_openai_world)

lemma run_stages_world:
  "snd (run_stages env user w) = w\<lparr>api_calls := api_calls w + 5\<rparr>"
proof -
  obtain r1 w1 where 1: "analyze_spending env (convert_objectid (PDict user)) w = (r1, w1)"
    by (cases "analyze_spending env (convert_objectid (PDict user)) w")
  let ?sa = "or_stored r1 user ''spend_analysis'' (PDict [])"
  obtain r2 w2 where 2: "generate_longterm_goals env ?sa w1 = (r2, w2)"
    by (cases "generate_longterm_goals env ?sa w1")
  obtain r3 w3 where 3: "generate_shortterm_goals env ?sa w2 = (r3, w3)"
    by (cases "generate_shortterm_goals env ?sa w2")
  obtain r4 w4 where 4: "identify_good_habits env (convert_objectid (PDict user)) w3 = (r4, w4)"
    by (cases "identify_good_habits env (convert_objectid (PDict user)) w3")
  obtain r5 w5 where 5: "identify_bad_habits env (convert_objectid (PDict user)) w4 = (r5, w5)"
    by (cases "identify_bad_habits env (convert_objectid (PDict user)) w4")
  have f1: "w1 = w\<lparr>api_calls := Suc (api_calls w)\<rparr>"
    using analyze_spending_world [of env _ w] 1 by (metis snd_conv)
  have f2: "w2 = w1\<lparr>api_calls := Suc (api_calls w1)\<rparr>"
    using generate_longterm_goals_world [of env _ w1] 2 by (metis snd_conv)
  have f3: "w3 = w2\<lparr>api_calls := Suc (api_calls w2)\<rparr>"
    using generate_shortterm_goals_world [of env _ w2] 3 by (metis snd_conv)
  have f4: "w4 = w3\<lparr>api_calls := Suc (api_calls w3)\<rparr>"
    using identify_good_habits_world [of env _ w3] 4 by (metis snd_conv)
  have f5: "w5 = w4\<lparr>api_calls := Suc (api_calls w4)\<rparr>"
    using identify_bad_habits_world [of env _ w4] 5 by (metis snd_conv)
  have "snd (run_stages env user w) = w5"
    using 1 2 3 4 5 by (simp add: run_stages_def Let_def del: convert_objectid.simps)
  with f1 f2 f3 f4 f5 show ?thesis by simp
qed

text \<open>The write.\<close>

lemma other_fields_dict_setitem:
  "k \<in> set derived_keys \<Longrightarrow> other_fields (dict_setitem d k v) = other_fields d"
  by (induction d) (auto simp: other_fields_def)

lemma other_fields_set_fields:
  "set (map fst flds) \<subseteq> set derived_keys \<Longrightarrow> other_fields (set_fields flds doc) = other_fields doc"
  unfolding set_fields_def
  by (induction flds arbitrary: doc) (auto simp: other_fields_dict_setitem)

lemma update_first_other_fields:
  "set (map fst flds) \<subseteq> set derived_keys \<Longrightarrow>
     map other_fields (update_first oid flds docs) = map other_fields docs"
  by (induction docs) (auto simp: other_fields_set_fields)

lemma map_fst_update_data: "map fst (update_data user r) = derived_keys"
  by (simp add: update_data_def derived_keys_def)

lemma ObjectId_new_stored [simp]:
  "map_of user ''_id'' = Some (PObjectId oid) \<Longrightarrow>
     exn_bind (getitem_str (PDict user) ''_id'') (ObjectId_new env k) = Inr oid"
  by simp

text \<open>What a run does to the store: nothing, or one \<^verbatim>\<open>$set\<close> and at most one read.\<close>

lemma persist_and_report_cases:
  "(snd (persist_and_report env user upd w) = w)
   \<or> (\<exists>oid ops. snd (persist_and_report env user upd w)
         = w\<lparr>users := update_first oid upd (users w),
              db_log := db_log w @ UpdateOneSet oid upd # ops\<rparr>
         \<and> (ops = [] \<or> (\<exists>oid'. ops = [FindOne oid'])))"
  by (auto simp: persist_and_report_def find_one_def update_one_set_def
      split: sum.splits option.splits prod.splits)

lemma persist_and_report_stored:
  "map_of user ''_id'' = Some (PObjectId oid) \<Longrightarrow>
     snd (persist_and_report env user upd w)
       = w\<lparr>users := update_first oid upd (users w),
            db_log := db_log w @ [UpdateOneSet oid upd, FindOne oid]\<rparr>"
  by (simp add: persist_and_report_def find_one_def update_one_set_def split: option.splits)

subsection \<open>The merge\<close>

text \<open>Every stage returns a value, whatever the service does, and makes one call.\<close>

lemma identify_good_habits_returns:
  "\<exists>v. identify_good_habits env u w = (Inr v, w\<lparr>api_calls := Suc (api_calls w)\<rparr>)"
  by (simp add: identify_good_habits_def create_chat_def)

lemma identify_bad_habits_returns:
  "\<exists>v. identify_bad_habits env u w = (Inr v, w\<lparr>api_calls := Suc (api_calls w)\<rparr>)"
  by (simp add: identify_bad_habits_def create_chat_def)

lemma call_openai_returns_value:
  "\<exists>v. call_openai env query w = (Inr v, w\<lparr>api_calls := Suc (api_calls w)\<rparr>)"
  using call_openai_never_raises [of env query w] call_openai_world [of env query w]
  by (metis prod.collapse)

lemma analyze_spending_returns:
  "\<exists>v. analyze_spending env u w = (Inr v, w\<lparr>api_calls := Suc (api_calls w)\<rparr>)"
  unfolding analyze_spending_def by (rule call_openai_returns_value)

lemma generate_longterm_goals_returns:
  "\<exists>v. generate_longterm_goals env u w = (Inr v, w\<lparr>api_calls := Suc (api_calls w)\<rparr>)"
  unfolding generate_longterm_goals_def by (rule call_openai_returns_value)

lemma generate_shortterm_goals_returns:
  "\<exists>v. generate_shortterm_goals env u w = (Inr v, w\<lparr>api_calls := Suc (api_calls w)\<rparr>)"
  unfolding generate_shortterm_goals_def by (rule call_openai_returns_value)

text \<open>The merge of any five results: each result when it is truthy, the stored value otherwise.\<close>

lemma update_data_merge:
  "update_data user r =
     [(''spend_analysis'',
       if truthy (spend_analysis r) then spend_analysis r else dict_get user ''spend_analysis'' (PDict [])),
      (''longterm'',
       if truthy (longterm r) then longterm r else dict_get user ''longterm'' (PDict [])),
      (''shortterm'',
       if truthy (shortterm r) then shortterm r else dict_get user ''shortterm'' (PDict [])),
      (''good_habits'',
       if truthy (good_habits r) then good_habits r else dict_get user ''good_habits'' (PList [])),
      (''bad_habits'',
       if truthy (bad_habits r) then bad_habits r else dict_get user ''bad_habits'' (PList []))]"
  by (simp add: update_data_def py_or_def)

text \<open>
  Claim C6. For every run of the orchestrator: each of the five stages returns a value
  (\<open>sa\<close>, \<open>lt\<close>, \<open>st\<close>, \<open>gh\<close>, \<open>bh\<close>: what \<^verbatim>\<open>analyze_spending\<close> returns
  for the record, what the two goal stages return for \<open>sa\<close>, what the two habit stages
  return for the record, each called in the world the one before left), and for each of the
  five derived fields the merged value is that stage's value when it is truthy and the
  stored value (or the empty default) otherwise. These merged values are the update
  document of the run, and on a record read from the store (its \<^verbatim>\<open>_id\<close> an
  \<open>ObjectId\<close>) they are what the run writes, in one \<^verbatim>\<open>$set\<close> on that record. An
  error record, as a dictionary or as a list that starts with one, is truthy, so it is
  taken as this run's value.
\<close>

theorem update_data_truthy_else_prior:
  "(\<exists>sa lt st gh bh w1 w2 w3 w4 w5.
      analyze_spending env (convert_objectid (PDict user)) w = (Inr sa, w1)
    \<and> generate_longterm_goals env sa w1 = (Inr lt, w2)
    \<and> generate_shortterm_goals env sa w2 = (Inr st, w3)
    \<and> identify_good_habits env (convert_objectid (PDict user)) w3 = (Inr gh, w4)
    \<and> identify_bad_habits env (convert_objectid (PDict user)) w4 = (Inr bh, w5)
    \<and> (let merged =
            [(''spend_analysis'',
              if truthy sa then sa else dict_get user ''spend_analysis'' (PDict [])),
             (''longterm'', if truthy lt then lt else dict_get user ''longterm'' (PDict [])),
             (''shortterm'', if truthy st then st else dict_get user ''shortterm'' (PDict [])),
             (''good_habits'', if truthy gh then gh else dict_get user ''good_habits'' (PList [])),
             (''bad_habits'', if truthy bh then bh else dict_get user ''bad_habits'' (PList []))]
        in update_data user (fst (run_stages env user w)) = merged
           \<and> (\<forall>oid. map_of user ''_id'' = Some (PObjectId oid) \<longrightarrow>
                 db_log (snd (analyze_and_update_user env user w))
                   = db_log w @ [UpdateOneSet oid merged, FindOne oid]
                 \<and> users (snd (analyze_and_update_user env user w))
                   = update_first oid merged (users w))))
   \<and> truthy (PDict ((''error'', v) # d))
   \<and> truthy (PList (PDict ((''error'', v) # d) # xs))"
proof -
  let ?uc = "convert_objectid (PDict user)"
  obtain sa where 1: "analyze_spending env ?uc w = (Inr sa, w\<lparr>api_calls := Suc (api_calls w)\<rparr>)"
    using analyze_spending_returns by blast
  let ?w1 = "w\<lparr>api_calls := Suc (api_calls w)\<rparr>"
  obtain lt where 2: "generate_longterm_goals env sa ?w1 = (Inr lt, ?w1\<lparr>api_calls := Suc (api_calls ?w1)\<rparr>)"
    using generate_longterm_goals_returns by blast
  let ?w2 = "?w1\<lparr>api_calls := Suc (api_calls ?w1)\<rparr>"
  obtain st where 3: "generate_shortterm_goals env sa ?w2 = (Inr st, ?w2\<lparr>api_calls := Suc (api_calls ?w2)\<rparr>)"
    using generate_shortterm_goals_returns by blast
  let ?w3 = "?w2\<lparr>api_calls := Suc (api_calls ?w2)\<rparr>"
  obtain gh where 4: "identify_good_habits env ?uc ?w3 = (Inr gh, ?w3\<lparr>api_calls := Suc (api_calls ?w3)\<rparr>)"
    using identify_good_habits_returns by blast
  let ?w4 = "?w3\<lparr>api_calls := Suc (api_calls ?w3)\<rparr>"
  obtain bh where 5: "identify_bad_habits env ?uc ?w4 = (Inr bh, ?w4\<lparr>api_calls := Suc (api_calls ?w4)\<rparr>)"
    using identify_bad_habits_returns by blast
  let ?w5 = "?w4\<lparr>api_calls := Suc (api_calls ?w4)\<rparr>"
  let ?merged = "[(''spend_analysis'',
              if truthy sa then sa else dict_get user ''spend_analysis'' (PDict [])),
             (''longterm'', if truthy lt then lt else dict_get user ''longterm'' (PDict [])),
             (''shortterm'', if truthy st then st else dict_get user ''shortterm'' (PDict [])),
             (''good_habits'', if truthy gh then gh else dict_get user ''good_habits'' (PList [])),
             (''bad_habits'', if truthy bh then bh else dict_get user ''bad_habits'' (PList []))]"
  have rs: "run_stages env user w =
      (\<lparr>spend_analysis = sa, longterm = lt, shortterm = st, good_habits = gh, bad_habits = bh\<rparr>, ?w5)"
    using 1 2 3 4 5
    by (simp add: run_stages_def Let_def or_stored_def del: convert_objectid.simps)
  then have ud: "update_data user (fst (run_stages env user w)) = ?merged"
    by (simp add: update_data_def py_or_def)
  have wr: "db_log (snd (analyze_and_update_user env user w))
                   = db_log w @ [UpdateOneSet oid ?merged, FindOne oid]
                 \<and> users (snd (analyze_and_update_user env user w))
                   = update_first oid ?merged (users w)"
    if "map_of user ''_id'' = Some (PObjectId oid)" for oid
    using rs ud persist_and_report_stored [OF that, of env ?merged ?w5]
    by (simp add: analyze_and_update_user_def)
  have ex: "\<exists>sa lt st gh bh w1 w2 w3 w4 w5.
      analyze_spending env ?uc w = (Inr sa, w1)
    \<and> generate_longterm_goals env sa w1 = (Inr lt, w2)
    \<and> generate_shortterm_goals env sa w2 = (Inr st, w3)
    \<and> identify_good_habits env ?uc w3 = (Inr gh, w4)
    \<and> identify_bad_habits env ?uc w4 = (Inr bh, w5)
    \<and> (let merged =
            [(''spend_analysis'',
              if truthy sa then sa else dict_get user ''spend_analysis'' (PDict [])),
             (''longterm'', if truthy lt then lt else dict_get user ''longterm'' (PDict [])),
             (''shortterm'', if truthy st then st else dict_get user ''shortterm'' (PDict [])),
             (''good_habits'', if truthy gh then gh else dict_get user ''good_habits'' (PList [])),
             (''bad_habits'', if truthy bh then bh else dict_get user ''bad_habits'' (PList []))]
        in update_data user (fst (run_stages env user w)) = merged
           \<and> (\<forall>oid. map_of user ''_id'' = Some (PObjectId oid) \<longrightarrow>
                 db_log (snd (analyze_and_update_user env user w))
                   = db_log w @ [UpdateOneSet oid merged, FindOne oid]
                 \<and> users (snd (analyze_and_update_user env user w))
                   = update_first oid merged (users w)))"
    apply (rule exI [of _ sa], rule exI [of _ lt], rule exI [of _ st], rule exI [of _ gh],
           rule exI [of _ bh], rule exI [of _ ?w1], rule exI [of _ ?w2], rule exI [of _ ?w3],
           rule exI [of _ ?w4], rule exI [of _ ?w5])
    unfolding Let_def
    using 1 2 3 4 5 ud wr by (intro conjI allI impI) simp_all
  then show ?thesis by simp
qed

text \<open>
  The theorem at a run on the stored record in which the spending stage returns an
  analysis, the long-term stage meets a rate limit, the short-term stage returns an empty
  object, the good-habits stage selects nothing and the bad-habits stage selects one item:
  the record after the run has the new analysis, the error record, the two stored values
  and the new item.
\<close>

theorem update_data_truthy_else_prior_witness:
  \<open>users (snd (analyze_and_update_user
                 (service_scripted
                    [Returns (chat_response ''{"rating": 55, "analysis": ["on track"]}''),
                     Raises (Exn OpenAIError ''Rate limit reached''),
                     Returns (chat_response ''{}''),
                     Returns (chat_response ''{"positiveSpendingOpportunities": {"investments": []}}''),
                     Returns (chat_response ''{"highImpactReductions": [{"category": "Subscriptions"}]}'')])
                 stored_user stored_world))
   = [[(''_id'', PObjectId ''652f1c0e9b1e8a3d5c7f0a12''),
       (''email'', PStr ''asha@example.com''),
       (''fullName'', PStr ''Asha Rao''),
       (''financial'', PDict [(''monthlyIncome'', PInt 50000), (''savingsGoal'', PInt 10000)]),
       (''spend_analysis'', PDict [(''rating'', PInt 55), (''analysis'', PList [PStr ''on track''])]),
       (''longterm'', PDict [(''error'', PStr ''OpenAI API error. Please try again later.'')]),
       (''shortterm'', PDict [(''shortterm_goals'', PList [PStr ''Build an emergency fund''])]),
       (''good_habits'', PList [PDict [(''category'', PStr ''Index funds'')]]),
       (''bad_habits'', PList [PDict [(''category'', PStr ''Subscriptions'')]])]]\<close>
proof -
  let ?env = \<open>service_scripted
                    [Returns (chat_response ''{"rating": 55, "analysis": ["on track"]}''),
                     Raises (Exn OpenAIError ''Rate limit reached''),
                     Returns (chat_response ''{}''),
                     Returns (chat_response ''{"positiveSpendingOpportunities": {"investments": []}}''),
                     Returns (chat_response ''{"highImpactReductions": [{"category": "Subscriptions"}]}'')]\<close>
  let ?uc = "convert_objectid (PDict stored_user)"
  let ?sa = "PDict [(''rating'', PInt 55), (''analysis'', PList [PStr ''on track''])]"
  let ?err = "PDict [(''error'', PStr ''OpenAI API error. Please try again later.'')]"
  have h: "map_of stored_user ''_id'' = Some (PObjectId ''652f1c0e9b1e8a3d5c7f0a12'')"
    by (simp add: stored_user_def)
  let ?merged = "\<lambda>sa lt st gh bh.
                     [(''spend_analysis'',
                       if truthy sa then sa else dict_get stored_user ''spend_analysis'' (PDict [])),
                      (''longterm'',
                       if truthy lt then lt else dict_get stored_user ''longterm'' (PDict [])),
                      (''shortterm'',
                       if truthy st then st else dict_get stored_user ''shortterm'' (PDict [])),
                      (''good_habits'',
                       if truthy gh then gh else dict_get stored_user ''good_habits'' (PList [])),
                      (''bad_habits'',
                       if truthy bh then bh else dict_get stored_user ''bad_habits'' (PList []))]"
  note t = update_data_truthy_else_prior
             [of ?env stored_user stored_world, THEN conjunct1, unfolded Let_def]
  from t obtain sa lt st gh bh w1 w2 w3 w4 w5 where
    s1: "analyze_spending ?env ?uc stored_world = (Inr sa, w1)"
    and s2: "generate_longterm_goals ?env sa w1 = (Inr lt, w2)"
    and s3: "generate_shortterm_goals ?env sa w2 = (Inr st, w3)"
    and s4: "identify_good_habits ?env ?uc w3 = (Inr gh, w4)"
    and s5: "identify_bad_habits ?env ?uc w4 = (Inr bh, w5)"
    and ud: "update_data stored_user (fst (run_stages ?env stored_user stored_world))
               = ?merged sa lt st gh bh"
    and wr: "\<forall>oid. map_of stored_user ''_id'' = Some (PObjectId oid) \<longrightarrow>
               db_log (snd (analyze_and_update_user ?env stored_user stored_world))
                 = db_log stored_world @ [UpdateOneSet oid (?merged sa lt st gh bh), FindOne oid]
               \<and> users (snd (analyze_and_update_user ?env stored_user stored_world))
                 = update_first oid (?merged sa lt st gh bh) (users stored_world)"
    by (elim exE conjE) (rule that)
  have w1: "w1 = stored_world\<lparr>api_calls := 1\<rparr>"
    using s1 analyze_spending_world [of ?env ?uc stored_world]
    by (simp add: stored_world_def)
  have e1: "fst (analyze_spending ?env ?uc stored_world) = Inr ?sa" by code_simp
  with s1 have sa: "sa = ?sa" by simp
  have w2: "w2 = stored_world\<lparr>api_calls := 2\<rparr>"
    using s2 w1 generate_longterm_goals_world [of ?env sa w1] by (simp add: stored_world_def)
  have e2: "fst (generate_longterm_goals ?env ?sa (stored_world\<lparr>api_calls := 1\<rparr>)) = Inr ?err"
    by code_simp
  with s2 sa w1 have lt: "lt = ?err" by simp
  have w3: "w3 = stored_world\<lparr>api_calls := 3\<rparr>"
    using s3 w2 generate_shortterm_goals_world [of ?env sa w2] by (simp add: stored_world_def)
  have e3: "fst (generate_shortterm_goals ?env ?sa (stored_world\<lparr>api_calls := 2\<rparr>)) = Inr (PDict [])"
    by code_simp
  with s3 sa w2 have st: "st = PDict []" by simp
  have w4: "w4 = stored_world\<lparr>api_calls := 4\<rparr>"
    using s4 w3 identify_good_habits_world [of ?env ?uc w3] by (simp add: stored_world_def)
  have e4: "fst (identify_good_habits ?env ?uc (stored_world\<lparr>api_calls := 3\<rparr>)) = Inr (PList [])"
    by code_simp
  with s4 w3 have gh: "gh = PList []" by simp
  have e5: "fst (identify_bad_habits ?env ?uc (stored_world\<lparr>api_calls := 4\<rparr>))
              = Inr (PList [PDict [(''category'', PStr ''Subscriptions'')]])"
    by code_simp
  with s5 w4 have bh: "bh = PList [PDict [(''category'', PStr ''Subscriptions'')]]" by simp
  from wr h have "users (snd (analyze_and_update_user ?env stored_user stored_world))
                 = update_first ''652f1c0e9b1e8a3d5c7f0a12'' (?merged sa lt st gh bh)
                     (users stored_world)"
    by blast
  then show ?thesis
    unfolding sa lt st gh bh
    by (simp add: stored_world_def stored_user_def dict_get_def has_id_def set_fields_def)
qed

subsection \<open>All stages fail at the transport level\<close>

text \<open>
  When every call of the service raises an \<open>OpenAIError\<close>, every stage returns an
  error record (its own handler catches the exception, so the handler of the orchestrator
  never runs), and the merge takes the five error records whatever was stored.
\<close>

lemma all_stages_fail_update_data:
  assumes "\<forall>n req. ChatCompletion_create env n req = Raises (Exn OpenAIError m)"
  shows "update_data user (fst (run_stages env user w)) =
     [(''spend_analysis'', PDict [(''error'', PStr ''OpenAI API error. Please try again later.'')]),
      (''longterm'', PDict [(''error'', PStr ''OpenAI API error. Please try again later.'')]),
      (''shortterm'', PDict [(''error'', PStr ''OpenAI API error. Please try again later.'')]),
      (''good_habits'', PList [PDict [(''error'', PStr ''OpenAI API error. Please try again later.'')]]),
      (''bad_habits'', PList [PDict [(''error'', PStr ''OpenAI API error. Please try again later.'')]])]"
proof -
  have c: "\<And>req w. create_chat env req w = (Inl (Exn OpenAIError m), w\<lparr>api_calls := Suc (api_calls w)\<rparr>)"
    using assms by (simp add: create_chat_def)
  have co: "\<And>q w. call_openai env q w
      = (Inr (PDict [(''error'', PStr ''OpenAI API error. Please try again later.'')]),
         w\<lparr>api_calls := Suc (api_calls w)\<rparr>)"
    by (simp add: call_openai_def call_openai_try_def c)
  have g: "\<And>u w. identify_good_habits env u w
      = (Inr (PList [PDict [(''error'', PStr ''OpenAI API error. Please try again later.'')]]),
         w\<lparr>api_calls := Suc (api_calls w)\<rparr>)"
    by (simp add: identify_good_habits_def c habits_handlers_def)
  have b: "\<And>u w. identify_bad_habits env u w
      = (Inr (PList [PDict [(''error'', PStr ''OpenAI API error. Please try again later.'')]]),
         w\<lparr>api_calls := Suc (api_calls w)\<rparr>)"
    by (simp add: identify_bad_habits_def c habits_handlers_def)
  show ?thesis
    by (simp add: run_stages_def analyze_spending_def generate_longterm_goals_def
        generate_shortterm_goals_def co g b or_stored_def update_data_def py_or_def Let_def
        del: convert_objectid.simps)
qed

text \<open>
  Claim C1 asks that the merged fields equal the stored ones in that case. The code at a
  stored record with five non-empty derived fields: the record after the run holds the
  error records, and the stored values (second conjunct) are gone.
\<close>

theorem all_stages_fail_overwrites_prior:
  "users (snd (analyze_and_update_user service_failing stored_user stored_world)) =
     [[(''_id'', PObjectId ''652f1c0e9b1e8a3d5c7f0a12''),
       (''email'', PStr ''asha@example.com''),
       (''fullName'', PStr ''Asha Rao''),
       (''financial'', PDict [(''monthlyIncome'', PInt 50000), (''savingsGoal'', PInt 10000)]),
       (''spend_analysis'', PDict [(''error'', PStr ''OpenAI API error. Please try again later.'')]),
       (''longterm'', PDict [(''error'', PStr ''OpenAI API error. Please try again later.'')]),
       (''shortterm'', PDict [(''error'', PStr ''OpenAI API error. Please try again later.'')]),
       (''good_habits'', PList [PDict [(''error'', PStr ''OpenAI API error. Please try again later.'')]]),
       (''bad_habits'', PList [PDict [(''error'', PStr ''OpenAI API error. Please try again later.'')]])]]
   \<and> map (\<lambda>k. dict_get stored_user k PNone) derived_keys =
       [PDict [(''rating'', PInt 40), (''analysis'', PList [PStr ''overspending on essentials''])],
        PDict [(''longterm_goals'', PList [PStr ''Buy a house''])],
        PDict [(''shortterm_goals'', PList [PStr ''Build an emergency fund''])],
        PList [PDict [(''category'', PStr ''Index funds'')]],
        PList [PDict [(''category'', PStr ''Dining out'')]]]"
  by code_simp

subsection \<open>The ad hoc analysis route\<close>

text \<open>
  \<^verbatim>\<open>analyze_spending\<close> never raises, so the handler of the route never runs and the
  route never answers with status 500.
\<close>

lemma analyze_spending_never_raises: "analyze_spending env u w \<noteq> (Inl e, w')"
  using call_openai_never_raises [of env _ w] by (simp add: analyze_spending_def) (metis fst_conv sum.distinct(1))

lemma analyze_user_finances_never_500:
  "fst (analyze_user_finances env user_id w) \<noteq> HTTPException 500 detail"
  by (auto simp: analyze_user_finances_def Let_def analyze_spending_never_raises
      split: prod.splits option.splits sum.splits)

text \<open>
  Claim C8 asks for a 500-class failure when the stage fails. The code at a transport
  error, at an empty response and at a response with no JSON: each time a success payload
  whose analysis is an error record.
\<close>

theorem analyze_user_finances_failure_is_payload:
  "fst (analyze_user_finances service_failing ''652f1c0e9b1e8a3d5c7f0a12'' stored_world) =
     Payload (PDict [(''user_id'', PStr ''652f1c0e9b1e8a3d5c7f0a12''),
                     (''analysis'', PDict [(''error'', PStr ''OpenAI API error. Please try again later.'')])])
   \<and> fst (analyze_user_finances (service_returning ''   '') ''652f1c0e9b1e8a3d5c7f0a12'' stored_world) =
     Payload (PDict [(''user_id'', PStr ''652f1c0e9b1e8a3d5c7f0a12''),
                     (''analysis'', PDict [(''error'', PStr ''OpenAI API returned an empty response'')])])
   \<and> fst (analyze_user_finances (service_returning ''I am sorry.'') ''652f1c0e9b1e8a3d5c7f0a12'' stored_world) =
     Payload (PDict [(''user_id'', PStr ''652f1c0e9b1e8a3d5c7f0a12''),
                     (''analysis'', PDict [(''error'', PStr ''No JSON found in OpenAI response'')])])"
  by code_simp

subsection \<open>The write is a partial update\<close>

text \<open>
  Claim C7. For every run of \<^verbatim>\<open>analyze_and_update_user\<close>: the update document
  has exactly the five keys of the derived fields; every document of the collection keeps
  all its other fields, with their values and in their order, and no document is added or
  removed; every persistence operation of the run is a read or a \<^verbatim>\<open>$set\<close> of that
  update document, never a replacement; and on a record read from the store (its
  \<^verbatim>\<open>_id\<close> an \<open>ObjectId\<close>) the run issues exactly one such \<^verbatim>\<open>$set\<close>, on the
  record with that identifier, followed by one read.
\<close>

theorem analyze_and_update_user_partial_update:
  "map fst (update_data user r) = derived_keys
   \<and> map other_fields (users (snd (analyze_and_update_user env user w))) = map other_fields (users w)
   \<and> length (users (snd (analyze_and_update_user env user w))) = length (users w)
   \<and> (\<exists>ops. db_log (snd (analyze_and_update_user env user w)) = db_log w @ ops
         \<and> (\<forall>op \<in> set ops.
               (\<exists>oid. op = FindOne oid)
               \<or> (\<exists>oid. op = UpdateOneSet oid (update_data user (fst (run_stages env user w))))))
   \<and> (\<forall>oid. map_of user ''_id'' = Some (PObjectId oid) \<longrightarrow>
         db_log (snd (analyze_and_update_user env user w))
           = db_log w @ [UpdateOneSet oid (update_data user (fst (run_stages env user w))), FindOne oid]
         \<and> users (snd (analyze_and_update_user env user w))
           = update_first oid (update_data user (fst (run_stages env user w))) (users w))"
proof -
  obtain rs w1 where rs: "run_stages env user w = (rs, w1)" by (cases "run_stages env user w")
  then have w1: "w1 = w\<lparr>api_calls := api_calls w + 5\<rparr>"
    using run_stages_world [of env user w] by simp
  let ?upd = "update_data user rs"
  let ?w' = "snd (analyze_and_update_user env user w)"
  have w': "?w' = snd (persist_and_report env user ?upd w1)"
    using rs by (simp add: analyze_and_update_user_def)
  have sub: "set (map fst ?upd) \<subseteq> set derived_keys" by (simp add: map_fst_update_data)
  have wr: "db_log ?w' = db_log w @ [UpdateOneSet oid ?upd, FindOne oid]
            \<and> users ?w' = update_first oid ?upd (users w)"
    if "map_of user ''_id'' = Some (PObjectId oid)" for oid
    using w' w1 persist_and_report_stored [OF that, of env ?upd w1] by simp
  from persist_and_report_cases [of env user ?upd w1]
  consider (none) "?w' = w1"
    | (some) oid ops where
        "?w' = w1\<lparr>users := update_first oid ?upd (users w1),
                  db_log := db_log w1 @ UpdateOneSet oid ?upd # ops\<rparr>"
        "ops = [] \<or> (\<exists>oid'. ops = [FindOne oid'])"
    using w' by auto
  then have both: "map other_fields (users ?w') = map other_fields (users w)
      \<and> (\<exists>ops. db_log ?w' = db_log w @ ops
            \<and> (\<forall>op \<in> set ops. (\<exists>oid. op = FindOne oid) \<or> (\<exists>oid. op = UpdateOneSet oid ?upd)))"
  proof cases
    case none
    with w1 show ?thesis by simp
  next
    case some
    from some(1) w1 have u: "users ?w' = update_first oid ?upd (users w)" by simp
    from some(1) w1 have l: "db_log ?w' = db_log w @ UpdateOneSet oid ?upd # ops" by simp
    from u have "map other_fields (users ?w') = map other_fields (users w)"
      using update_first_other_fields [OF sub] by simp
    moreover have "\<forall>op \<in> set (UpdateOneSet oid ?upd # ops).
                     (\<exists>oid. op = FindOne oid) \<or> (\<exists>oid. op = UpdateOneSet oid ?upd)"
      using some(2) by auto
    ultimately show ?thesis using l by blast
  qed
  then have frame: "map other_fields (users ?w') = map other_fields (users w)" by blast
  from frame have len: "length (users ?w') = length (users w)" by (rule map_eq_imp_length_eq)
  show ?thesis
    using wr both len rs by (simp add: map_fst_update_data)
qed

text \<open>The theorem at the stored record, in a run in which the service fails.\<close>

theorem analyze_and_update_user_partial_update_witness:
  "map fst (update_data stored_user (fst (run_stages service_failing stored_user stored_world)))
     = [''spend_analysis'', ''longterm'', ''shortterm'', ''good_habits'', ''bad_habits'']
   \<and> map other_fields (users (snd (analyze_and_update_user service_failing stored_user stored_world)))
     = [[(''_id'', PObjectId ''652f1c0e9b1e8a3d5c7f0a12''),
         (''email'', PStr ''asha@example.com''),
         (''fullName'', PStr ''Asha Rao''),
         (''financial'', PDict [(''monthlyIncome'', PInt 50000), (''savingsGoal'', PInt 10000)])]]
   \<and> db_log (snd (analyze_and_update_user service_failing stored_user stored_world))
     = [UpdateOneSet ''652f1c0e9b1e8a3d5c7f0a12''
          (update_data stored_user (fst (run_stages service_failing stored_user stored_world))),
        FindOne ''652f1c0e9b1e8a3d5c7f0a12'']"
proof -
  have h: "map_of stored_user ''_id'' = Some (PObjectId ''652f1c0e9b1e8a3d5c7f0a12'')"
    by (simp add: stored_user_def)
  have o: "map other_fields (users stored_world)
     = [[(''_id'', PObjectId ''652f1c0e9b1e8a3d5c7f0a12''),
         (''email'', PStr ''asha@example.com''),
         (''fullName'', PStr ''Asha Rao''),
         (''financial'', PDict [(''monthlyIncome'', PInt 50000), (''savingsGoal'', PInt 10000)])]]"
    by (simp add: stored_world_def stored_user_def other_fields_def derived_keys_def)
  have l: "db_log stored_world = []" by (simp add: stored_world_def)
  note t = analyze_and_update_user_partial_update
            [of stored_user "fst (run_stages service_failing stored_user stored_world)"
                service_failing stored_world]
  from t have a: "map fst (update_data stored_user (fst (run_stages service_failing stored_user stored_world)))
     = derived_keys"
    by blast
  from t have "map other_fields (users (snd (analyze_and_update_user service_failing stored_user stored_world)))
     = map other_fields (users stored_world)"
    by blast
  with o have b: "map other_fields (users (snd (analyze_and_update_user service_failing stored_user stored_world)))
     = [[(''_id'', PObjectId ''652f1c0e9b1e8a3d5c7f0a12''),
         (''email'', PStr ''asha@example.com''),
         (''fullName'', PStr ''Asha Rao''),
         (''financial'', PDict [(''monthlyIncome'', PInt 50000), (''savingsGoal'', PInt 10000)])]]"
    by simp
  from t h have "db_log (snd (analyze_and_update_user service_failing stored_user stored_world))
     = db_log stored_world @ [UpdateOneSet ''652f1c0e9b1e8a3d5c7f0a12''
          (update_data stored_user (fst (run_stages service_failing stored_user stored_world))),
        FindOne ''652f1c0e9b1e8a3d5c7f0a12'']"
    by blast
  with l have c: "db_log (snd (analyze_and_update_user service_failing stored_user stored_world))
     = [UpdateOneSet ''652f1c0e9b1e8a3d5c7f0a12''
          (update_data stored_user (fst (run_stages service_failing stored_user stored_world))),
        FindOne ''652f1c0e9b1e8a3d5c7f0a12'']"
    by simp
  from a b c show ?thesis by (simp add: derived_keys_def)
qed

subsection \<open>Validation of the identifier\<close>

lemma analyze_and_update_user_log:
  "\<exists>ops. db_log (snd (analyze_and_update_user env user w)) = db_log w @ ops"
proof -
  obtain rs w1 where rs: "run_stages env user w = (rs, w1)" by (cases "run_stages env user w")
  then have w1: "db_log w1 = db_log w"
    using run_stages_world [of env user w] by simp
  from persist_and_report_cases [of env user "update_data user rs" w1]
  have "\<exists>ops. db_log (snd (persist_and_report env user (update_data user rs) w1)) = db_log w1 @ ops"
    by auto
  with rs w1 show ?thesis by (simp add: analyze_and_update_user_def)
qed

lemma verify_and_run_analysis_log:
  assumes "ObjectId_is_valid user_id"
  shows "\<exists>ops. db_log (snd (verify_and_run_analysis env user_id w))
            = db_log w @ FindOne (ObjectId_of_str user_id) # ops"
proof -
  let ?oid = "ObjectId_of_str user_id"
  obtain u w1 where f: "find_one ?oid w = (u, w1)" by (cases "find_one ?oid w")
  then have w1: "db_log w1 = db_log w @ [FindOne ?oid]" by (auto simp: find_one_def)
  show ?thesis
  proof (cases "\<exists>user. u = Some user \<and> user \<noteq> [] \<and> truthy (dict_get user ''email'' PNone)")
    case True
    then obtain user where u: "u = Some user" "user \<noteq> []" "truthy (dict_get user ''email'' PNone)"
      by blast
    obtain ops where "db_log (snd (analyze_and_update_user env user w1)) = db_log w1 @ ops"
      using analyze_and_update_user_log by blast
    with w1 have "db_log (snd (analyze_and_update_user env user w1)) = db_log w @ FindOne ?oid # ops"
      by simp
    moreover have "snd (verify_and_run_analysis env user_id w) = snd (analyze_and_update_user env user w1)"
      using assms f u
      by (simp add: verify_and_run_analysis_def split: prod.splits sum.splits)
    ultimately show ?thesis by auto
  next
    case False
    then have "snd (verify_and_run_analysis env user_id w) = w1"
      using assms f
      by (auto simp: verify_and_run_analysis_def split: option.splits)
    with w1 show ?thesis by simp
  qed
qed

lemma analyze_user_finances_log:
  assumes "ObjectId_is_valid user_id"
  shows "\<exists>ops. db_log (snd (analyze_user_finances env user_id w))
            = db_log w @ FindOne (ObjectId_of_str user_id) # ops"
proof -
  let ?oid = "ObjectId_of_str user_id"
  obtain u w1 where f: "find_one_financial ?oid w = (u, w1)" by (cases "find_one_financial ?oid w")
  then have w1: "db_log w1 = db_log w @ [FindOne ?oid]" by (auto simp: find_one_financial_def)
  have st: "\<And>u r w2. analyze_spending env u w1 = (r, w2) \<Longrightarrow> db_log w2 = db_log w1"
    using analyze_spending_world [of env _ w1] by (metis snd_conv world.select_convs(3) world.surjective world.update_convs(1))
  have "db_log (snd (analyze_user_finances env user_id w)) = db_log w1"
    using assms f
    by (auto simp: analyze_user_finances_def Let_def dest: st split: option.splits prod.splits sum.splits)
  with w1 show ?thesis by simp
qed

text \<open>
  Claim C9. For every identifier given to the trigger, the ad hoc analysis or the delete
  route: a string of 24 hexadecimal digits passes validation, and the route goes on to its
  persistence call on that identifier; a string of 10 characters, or one with a character
  that is no hexadecimal digit, is answered with status 400 and the world is left as it
  was, so no read, write or delete was attempted.
\<close>

theorem identifier_validated_before_persistence:
  "(length user_id = 24 \<and> set user_id \<subseteq> set hexdigits \<longrightarrow>
       ObjectId_is_valid user_id
       \<and> (\<exists>ops. db_log (snd (verify_and_run_analysis env user_id w))
                  = db_log w @ FindOne (ObjectId_of_str user_id) # ops)
       \<and> (\<exists>ops. db_log (snd (analyze_user_finances env user_id w))
                  = db_log w @ FindOne (ObjectId_of_str user_id) # ops)
       \<and> db_log (snd (delete_user env user_id w)) = db_log w @ [DeleteOne (ObjectId_of_str user_id)])
   \<and> (length user_id = 10 \<or> \<not> set user_id \<subseteq> set hexdigits \<longrightarrow>
       \<not> ObjectId_is_valid user_id
       \<and> verify_and_run_analysis env user_id w = (HTTPException 400 ''Invalid ObjectID format'', w)
       \<and> analyze_user_finances env user_id w = (HTTPException 400 ''Invalid ObjectID format'', w)
       \<and> delete_user env user_id w = (HTTPException 400 ''Invalid ObjectID format'', w))"
proof -
  have iff: "ObjectId_is_valid user_id \<longleftrightarrow> length user_id = 24 \<and> set user_id \<subseteq> set hexdigits"
    by (auto simp: ObjectId_is_valid_def list_all_iff)
  have valid: "ObjectId_is_valid user_id"
    if "length user_id = 24" "set user_id \<subseteq> set hexdigits"
    using that iff by simp
  have invalid: "\<not> ObjectId_is_valid user_id"
    if "length user_id = 10 \<or> \<not> set user_id \<subseteq> set hexdigits"
    using that iff by auto
  have del: "db_log (snd (delete_user env user_id w)) = db_log w @ [DeleteOne (ObjectId_of_str user_id)]"
    if "ObjectId_is_valid user_id"
    using that by (simp add: delete_user_def delete_one_def)
  have rej: "verify_and_run_analysis env user_id w = (HTTPException 400 ''Invalid ObjectID format'', w)
       \<and> analyze_user_finances env user_id w = (HTTPException 400 ''Invalid ObjectID format'', w)
       \<and> delete_user env user_id w = (HTTPException 400 ''Invalid ObjectID format'', w)"
    if "\<not> ObjectId_is_valid user_id"
    using that by (simp add: verify_and_run_analysis_def analyze_user_finances_def delete_user_def)
  have ok: "ObjectId_is_valid user_id
       \<and> (\<exists>ops. db_log (snd (verify_and_run_analysis env user_id w))
                  = db_log w @ FindOne (ObjectId_of_str user_id) # ops)
       \<and> (\<exists>ops. db_log (snd (analyze_user_finances env user_id w))
                  = db_log w @ FindOne (ObjectId_of_str user_id) # ops)
       \<and> db_log (snd (delete_user env user_id w)) = db_log w @ [DeleteOne (ObjectId_of_str user_id)]"
    if "length user_id = 24 \<and> set user_id \<subseteq> set hexdigits"
  proof -
    from that have v: "ObjectId_is_valid user_id" using valid by simp
    from v verify_and_run_analysis_log [OF v] analyze_user_finances_log [OF v] del [OF v]
    show ?thesis by (intro conjI)
  qed
  have bad: "\<not> ObjectId_is_valid user_id
       \<and> verify_and_run_analysis env user_id w = (HTTPException 400 ''Invalid ObjectID format'', w)
       \<and> analyze_user_finances env user_id w = (HTTPException 400 ''Invalid ObjectID format'', w)
       \<and> delete_user env user_id w = (HTTPException 400 ''Invalid ObjectID format'', w)"
    if "length user_id = 10 \<or> \<not> set user_id \<subseteq> set hexdigits"
    using invalid [OF that] rej by (intro conjI) simp_all
  show ?thesis
    by (rule conjI; rule impI) (erule ok, erule bad)
qed

text \<open>
  The theorem at a valid identifier, at one of 10 characters, at one with a letter beyond
  f, and at one of 24 characters that is no hexadecimal text.
\<close>

theorem identifier_validated_before_persistence_witness:
  "ObjectId_is_valid ''652f1c0e9b1e8a3d5c7f0a12''
   \<and> db_log (snd (delete_user service_failing ''652f1c0e9b1e8a3d5c7f0a12'' stored_world))
       = [DeleteOne ''652f1c0e9b1e8a3d5c7f0a12'']
   \<and> verify_and_run_analysis service_failing ''652f1c0e9b'' stored_world
       = (HTTPException 400 ''Invalid ObjectID format'', stored_world)
   \<and> analyze_user_finances service_failing ''652f1c0e9b1e8a3d5c7f0a1z'' stored_world
       = (HTTPException 400 ''Invalid ObjectID format'', stored_world)
   \<and> delete_user service_failing ''not-an-object-id-at-all!'' stored_world
       = (HTTPException 400 ''Invalid ObjectID format'', stored_world)"
proof -
  have v: "length ''652f1c0e9b1e8a3d5c7f0a12'' = 24
           \<and> set ''652f1c0e9b1e8a3d5c7f0a12'' \<subseteq> set hexdigits"
    by (simp add: hexdigits_def)
  have s: "length ''652f1c0e9b'' = 10" by simp
  have z: "\<not> set ''652f1c0e9b1e8a3d5c7f0a1z'' \<subseteq> set hexdigits"
    by (simp add: hexdigits_def)
  have n: "\<not> set ''not-an-object-id-at-all!'' \<subseteq> set hexdigits"
    by (simp add: hexdigits_def)
  have o: "ObjectId_of_str ''652f1c0e9b1e8a3d5c7f0a12'' = ''652f1c0e9b1e8a3d5c7f0a12''" by code_simp
  have l: "db_log stored_world = []" by (simp add: stored_world_def)
  from identifier_validated_before_persistence
         [of "''652f1c0e9b1e8a3d5c7f0a12''" service_failing stored_world] v o l
  have a: "ObjectId_is_valid ''652f1c0e9b1e8a3d5c7f0a12''
   \<and> db_log (snd (delete_user service_failing ''652f1c0e9b1e8a3d5c7f0a12'' stored_world))
       = [DeleteOne ''652f1c0e9b1e8a3d5c7f0a12'']"
    by simp
  from identifier_validated_before_persistence [of "''652f1c0e9b''" service_failing stored_world] s
  have b: "verify_and_run_analysis service_failing ''652f1c0e9b'' stored_world
       = (HTTPException 400 ''Invalid ObjectID format'', stored_world)"
    by blast
  from identifier_validated_before_persistence
         [of "''652f1c0e9b1e8a3d5c7f0a1z''" service_failing stored_world] z
  have c: "analyze_user_finances service_failing ''652f1c0e9b1e8a3d5c7f0a1z'' stored_world
       = (HTTPException 400 ''Invalid ObjectID format'', stored_world)"
    by blast
  from identifier_validated_before_persistence
         [of "''not-an-object-id-at-all!''" service_failing stored_world] n
  have d: "delete_user service_failing ''not-an-object-id-at-all!'' stored_world
       = (HTTPException 400 ''Invalid ObjectID format'', stored_world)"
    by blast
  from a b c d show ?thesis by blast
qed

end
